theory Spec2Isabelle
  imports Main "HOL-Library.Sublist"
begin

section \<open>Strings\<close>

text \<open>
  A Python \<open>str\<close> is modelled as a \<open>string\<close> holding its UTF-8 bytes. \<open>utf8\<close> writes the
  bytes of text outside ASCII.
\<close>

definition utf8 :: "nat list \<Rightarrow> string" where
  "utf8 bs = map char_of bs"

text \<open>
  \<open>str.lower()\<close>. On a \<open>str\<close> of ASCII characters (every byte below 128) the letters \<open>A\<close> to
  \<open>Z\<close> (bytes 65 to 90) go to \<open>a\<close> to \<open>z\<close> and every other character stays. On a \<open>str\<close> with
  characters outside ASCII the result follows the Unicode character database of the
  interpreter (it may change letters outside ASCII, and also the length of the text):
  that function is the parameter \<open>ucd\<close> of the model, and nothing is assumed of it.
\<close>

definition lower_char :: "char \<Rightarrow> char" where
  "lower_char c =
     (let n = (of_char c :: nat) in if 65 \<le> n \<and> n \<le> 90 then char_of (n + 32) else c)"

definition is_ascii :: "string \<Rightarrow> bool" where
  "is_ascii s = list_all (\<lambda>c. (of_char c :: nat) < 128) s"

definition lower :: "(string \<Rightarrow> string) \<Rightarrow> string \<Rightarrow> string" where
  "lower ucd s = (if is_ascii s then map lower_char s else ucd s)"


section \<open>Data model\<close>

subsection \<open>Pattern elements and annotations\<close>

text \<open>
  The type objects that appear in a \<open>Handler(...)\<close> pattern or in a parameter annotation:
  \<open>str\<close>, \<open>list\<close>, \<open>list[str]\<close>, \<open>type(None)\<close>, and any other class or generic alias (named
  by its text). An annotation is one such object or a \<open>types.UnionType\<close> (\<open>X | Y\<close>) with its
  members in the order of \<open>typing.get_args\<close>.
\<close>

datatype pytype = StrT | ListT | ListStrT | NoneT | OtherT string

datatype anno = Plain pytype | Union "pytype list"

text \<open>
  The subclasses of \<open>ArgumentParser\<close> (the base class is never instantiated).
\<close>

datatype ArgumentParser = CommandEntryArgument | HandlerArgument | GroupArgument | CategoryArgument

text \<open>
  One element of \<open>Handler.args\<close>: a \<open>str\<close> instance (a literal keyword), an \<open>ArgumentParser\<close>
  instance, or a type object.
\<close>

datatype arg = Literal string | Parser ArgumentParser | Type anno

subsection \<open>Values\<close>

text \<open>
  Objects of the host framework (command entries, command handlers, permission groups,
  categories) are referred to by their identity. A value is a \<open>str\<close>, a list of \<open>str\<close>,
  \<open>None\<close>, such an object, a pair of a name and such an object (what three of the parsers
  return), or one of the two objects that every call passes on: the \<open>MyCommandHandler\<close>
  instance (\<open>self\<close>) and the command context (\<open>ctx\<close>).
\<close>

type_synonym objref = nat

datatype py_value =
    Str string
  | StrList "string list"
  | NoneV
  | Obj objref
  | Tuple string objref
  | SelfObj
  | CtxObj

subsection \<open>Functions and registered handlers\<close>

text \<open>
  What \<open>inspect.signature\<close> reads of a parameter: its name, its annotation and its default
  (\<open>None\<close> for \<open>inspect.Signature.empty\<close>).
\<close>

record parameter =
  pname :: string
  annotation :: anno
  pdefault :: "py_value option"

text \<open>
  A function object: its identity (the line of its \<open>def\<close>), its parameters in order
  (with \<open>self\<close> and \<open>ctx\<close>) and its \<open>__doc__\<close>.
\<close>

record pyfunction =
  lineno :: nat
  parameters :: "parameter list"
  doc :: "string option"

text \<open>
  A \<open>Handler\<close> object that went through \<open>__call__\<close>. \<open>Handler\<close> defines no \<open>__eq__\<close>, so two
  handlers are equal when they are the same object: \<open>hid\<close> is the object's identity.
\<close>

record Handler =
  hid :: nat
  args :: "arg list"
  handler :: pyfunction
  docs :: "string option"

text \<open>
  \<open>Handler(*args)(func)\<close>: \<open>__init__\<close> stores the pattern, \<open>__call__\<close> stores the function and
  its docstring and appends the object to the class attribute \<open>Handler.handlers\<close>. The new
  object's identity is passed in.
\<close>

definition Handler_call :: "nat \<Rightarrow> arg list \<Rightarrow> pyfunction \<Rightarrow> Handler list \<Rightarrow> Handler list" where
  "Handler_call i as func handlers =
     handlers @ [\<lparr>hid = i, args = as, handler = func, docs = doc func\<rparr>]"

definition is_list :: "arg \<Rightarrow> bool" where
  "is_list typ \<longleftrightarrow> typ = Type (Plain ListT) \<or> typ = Type (Plain ListStrT)"

definition ignore_args_size :: "Handler \<Rightarrow> bool" where
  "ignore_args_size cmd = (if args cmd \<noteq> [] then is_list (last (args cmd)) else False)"

subsection \<open>Errors\<close>

datatype error =
    CommandMessageError string
  | CommandNotFoundError
  | CommandInfoError Handler

datatype py_exception = IndexError


section \<open>Argument parsers\<close>

text \<open>
  The state of the host framework that the parsers read through \<open>DNCoreAPI.commands()\<close>:
  \<open>config.categories\<close> (a dict, in insertion order), \<open>handlers\<close> and \<open>config.groups\<close>.
\<close>

record CommandCategory =
  category_id :: objref
  commands :: "string \<rightharpoonup> objref"

record CommandManager =
  config_categories :: "(string \<times> CommandCategory) list"
  mgr_handlers :: "string \<rightharpoonup> objref"
  config_groups :: "string \<rightharpoonup> objref"

definition command_not_defined :: "string \<Rightarrow> string" where
  "command_not_defined name =
     '':grey_exclamation: '' @ utf8 [227, 130, 179, 227, 131, 158, 227, 131, 179, 227, 131, 137]
     @ '' `'' @ name @ ''` ''
     @ utf8 [227, 129, 175, 229, 174, 154, 231, 190, 169, 227, 129, 149, 227, 130, 140, 227,
             129, 166, 227, 129, 132, 227, 129, 190, 227, 129, 155, 227, 130, 147]"

definition handler_not_registered :: "string \<Rightarrow> string" where
  "handler_not_registered name =
     '':grey_exclamation: '' @ utf8 [227, 131, 143, 227, 131, 179, 227, 131, 137, 227, 131, 169]
     @ ''ID `'' @ name @ ''` ''
     @ utf8 [227, 129, 175, 231, 153, 187, 233, 140, 178, 227, 129, 149, 227, 130, 140, 227,
             129, 166, 227, 129, 132, 227, 129, 190, 227, 129, 155, 227, 130, 147]"

definition group_not_defined :: "string \<Rightarrow> string" where
  "group_not_defined name =
     '':grey_exclamation: '' @ utf8 [227, 130, 176, 227, 131, 171, 227, 131, 188, 227, 131, 151]
     @ '' `'' @ name @ ''` ''
     @ utf8 [227, 129, 175, 229, 174, 154, 231, 190, 169, 227, 129, 149, 227, 130, 140, 227,
             129, 166, 227, 129, 132, 227, 129, 190, 227, 129, 155, 227, 130, 147]"

definition category_not_defined :: "string \<Rightarrow> string" where
  "category_not_defined name =
     '':grey_exclamation: '' @ utf8 [227, 130, 171, 227, 131, 134, 227, 130, 180, 227, 131, 170]
     @ '' `'' @ name @ ''` ''
     @ utf8 [227, 129, 175, 229, 174, 154, 231, 190, 169, 227, 129, 149, 227, 130, 140, 227,
             129, 166, 227, 129, 132, 227, 129, 190, 227, 129, 155, 227, 130, 147]"

text \<open>
  \<open>CommandEntryArgument.parse\<close>: the first category, in the order of the dict, whose
  commands hold the lowered name.
\<close>

fun find_entry :: "CommandCategory list \<Rightarrow> string \<Rightarrow> objref option" where
  "find_entry [] name = None"
| "find_entry (category # categories) name =
     (case commands category name of
        Some entry \<Rightarrow> Some entry
      | None \<Rightarrow> find_entry categories name)"

definition CommandEntryArgument_parse :: "(string \<Rightarrow> string) \<Rightarrow> CommandManager \<Rightarrow> string \<Rightarrow> string + py_value" where
  "CommandEntryArgument_parse ucd mgr name =
     (case find_entry (map snd (config_categories mgr)) (lower ucd name) of
        Some entry \<Rightarrow> Inr (Tuple (lower ucd name) entry)
      | None \<Rightarrow> Inl (command_not_defined (lower ucd name)))"

definition HandlerArgument_parse :: "(string \<Rightarrow> string) \<Rightarrow> CommandManager \<Rightarrow> string \<Rightarrow> string + py_value" where
  "HandlerArgument_parse ucd mgr name =
     (case mgr_handlers mgr (lower ucd name) of
        Some h \<Rightarrow> Inr (Obj h)
      | None \<Rightarrow> Inl (handler_not_registered (lower ucd name)))"

definition GroupArgument_parse :: "(string \<Rightarrow> string) \<Rightarrow> CommandManager \<Rightarrow> string \<Rightarrow> string + py_value" where
  "GroupArgument_parse ucd mgr name =
     (case config_groups mgr (lower ucd name) of
        Some g \<Rightarrow> Inr (Tuple (lower ucd name) g)
      | None \<Rightarrow> Inl (group_not_defined (lower ucd name)))"

definition CategoryArgument_parse :: "(string \<Rightarrow> string) \<Rightarrow> CommandManager \<Rightarrow> string \<Rightarrow> string + py_value" where
  "CategoryArgument_parse ucd mgr argument =
     (case map_of (config_categories mgr) (lower ucd argument) of
        Some category \<Rightarrow> Inr (Tuple (lower ucd argument) (category_id category))
      | None \<Rightarrow> Inl (category_not_defined (lower ucd argument)))"

text \<open>\<open>typ.parse(arg)\<close>: the method of the parser's class; \<open>Inl\<close> is the message of the
  \<open>CommandMessageError\<close> it raises.\<close>

fun parse :: "(string \<Rightarrow> string) \<Rightarrow> CommandManager \<Rightarrow> ArgumentParser \<Rightarrow> string \<Rightarrow> string + py_value" where
  "parse ucd mgr CommandEntryArgument name = CommandEntryArgument_parse ucd mgr name"
| "parse ucd mgr HandlerArgument name = HandlerArgument_parse ucd mgr name"
| "parse ucd mgr GroupArgument name = GroupArgument_parse ucd mgr name"
| "parse ucd mgr CategoryArgument name = CategoryArgument_parse ucd mgr name"


section \<open>Resolution: \<open>MyCommandHandler.get_command\<close>\<close>

text \<open>
  \<open>isinstance(typ, types.UnionType) and type(None) in typing.get_args(typ)\<close>, on a pattern
  element and on an annotation.
\<close>

fun nullable :: "anno \<Rightarrow> bool" where
  "nullable (Union ts) = (NoneT \<in> set ts)"
| "nullable (Plain t) = False"

fun is_optional :: "arg \<Rightarrow> bool" where
  "is_optional (Type t) = nullable t"
| "is_optional (Literal s) = False"
| "is_optional (Parser p) = False"

text \<open>
  \<open>typ = typing.get_args(typ)[0]\<close> for a union with \<open>None\<close>: the first member only.
\<close>

fun first_only :: "arg \<Rightarrow> arg" where
  "first_only (Type (Union (t # ts))) =
     (if NoneT \<in> set (t # ts) then Type (Plain t) else Type (Union (t # ts)))"
| "first_only typ = typ"

text \<open>
  The local state of the scan: the candidate list \<open>handlers\<close> and the dict \<open>_args\<close> of the
  values collected for each handler (every handler starts with the empty list).
\<close>

type_synonym scan_state = "Handler list \<times> (Handler \<Rightarrow> py_value list)"

text \<open>
  The body of the inner loop, for one candidate \<open>cmd\<close> at token \<open>arg\<close> of index \<open>idx\<close>.
  \<open>cmd.args[idx]\<close> raises \<open>IndexError\<close> when the pattern is too short. \<open>handlers.remove(cmd)\<close>
  takes out the first occurrence of \<open>cmd\<close>, which is there: \<open>cmd\<close> comes from a copy of
  \<open>handlers\<close> made at the start of this index.
\<close>

definition scan_cmd ::
  "(string \<Rightarrow> string) \<Rightarrow> CommandManager \<Rightarrow> string list \<Rightarrow> nat \<Rightarrow> string \<Rightarrow> Handler \<Rightarrow> scan_state \<Rightarrow> error + scan_state"
where
  "scan_cmd ucd mgr arguments idx arg cmd st =
     (case st of (handlers, as) \<Rightarrow>
        if length (args cmd) \<le> idx then
          (if \<not> ignore_args_size cmd then Inr (remove1 cmd handlers, as)
           else Inr (handlers, as))
        else
          (case first_only (args cmd ! idx) of
             Literal s \<Rightarrow>
               if lower ucd s \<noteq> lower ucd arg then Inr (remove1 cmd handlers, as)
               else Inr (handlers, as)
           | Parser p \<Rightarrow>
               (case parse ucd mgr p arg of
                  Inl message \<Rightarrow> Inl (CommandMessageError message)
                | Inr v \<Rightarrow> Inr (handlers, as(cmd := as cmd @ [v])))
           | Type t \<Rightarrow>
               if t = Plain StrT then Inr (handlers, as(cmd := as cmd @ [Str arg]))
               else if t = Plain ListT \<or> t = Plain ListStrT then
                 Inr (handlers, as(cmd := as cmd @ [StrList (drop idx arguments)]))
               else Inr (handlers, as)))"

text \<open>\<open>for cmd in list(handlers)\<close>: the candidates of the copy, in order.\<close>

fun scan_cmds ::
  "(string \<Rightarrow> string) \<Rightarrow> CommandManager \<Rightarrow> string list \<Rightarrow> nat \<Rightarrow> string \<Rightarrow> Handler list \<Rightarrow> scan_state \<Rightarrow> error + scan_state"
where
  "scan_cmds ucd mgr arguments idx arg [] st = Inr st"
| "scan_cmds ucd mgr arguments idx arg (cmd # cmds) st =
     (case scan_cmd ucd mgr arguments idx arg cmd st of
        Inl e \<Rightarrow> Inl e
      | Inr st' \<Rightarrow> scan_cmds ucd mgr arguments idx arg cmds st')"

text \<open>\<open>for idx, arg in enumerate(arguments)\<close>, from index \<open>idx\<close> on.\<close>

fun scan_args ::
  "(string \<Rightarrow> string) \<Rightarrow> CommandManager \<Rightarrow> string list \<Rightarrow> nat \<Rightarrow> string list \<Rightarrow> scan_state \<Rightarrow> error + scan_state"
where
  "scan_args ucd mgr arguments idx [] st = Inr st"
| "scan_args ucd mgr arguments idx (arg # rest) st =
     (case scan_cmds ucd mgr arguments idx arg (fst st) st of
        Inl e \<Rightarrow> Inl e
      | Inr st' \<Rightarrow> scan_args ucd mgr arguments (Suc idx) rest st')"

text \<open>
  The arity check. \<open>missing_required typs\<close> tells whether the loop over
  \<open>cmd.args[len(arguments):]\<close> reaches an element that is not a union with \<open>None\<close>.
\<close>

fun missing_required :: "arg list \<Rightarrow> bool" where
  "missing_required [] = False"
| "missing_required (typ # typs) = (if is_optional typ then missing_required typs else True)"

fun check_arity ::
  "nat \<Rightarrow> Handler list \<Rightarrow> Handler list \<times> Handler list \<Rightarrow> Handler list \<times> Handler list"
where
  "check_arity n [] st = st"
| "check_arity n (cmd # cmds) (handlers, arg_errors) =
     (if missing_required (drop n (args cmd))
      then check_arity n cmds (remove1 cmd handlers, arg_errors @ [cmd])
      else check_arity n cmds (handlers, arg_errors))"

text \<open>
  \<open>get_command\<close> up to the choice of \<open>cmd = handlers[0]\<close>: the chosen handler and the values
  collected for it.
\<close>

definition select_command ::
  "(string \<Rightarrow> string) \<Rightarrow> CommandManager \<Rightarrow> Handler list \<Rightarrow> string list \<Rightarrow> error + (Handler \<times> py_value list)"
where
  "select_command ucd mgr Handler_handlers arguments =
     (if arguments = [] then Inl CommandNotFoundError
      else
        (case scan_args ucd mgr arguments 0 arguments (Handler_handlers, \<lambda>hdl. []) of
           Inl e \<Rightarrow> Inl e
         | Inr (handlers, as) \<Rightarrow>
             if handlers = [] then Inl CommandNotFoundError
             else
               (case check_arity (length arguments) handlers (handlers, []) of
                  (handlers', arg_errors) \<Rightarrow>
                    if handlers' = [] then
                      (if length arg_errors = 1 then Inl (CommandInfoError (hd arg_errors))
                       else Inl CommandNotFoundError)
                    else Inr (hd handlers', as (hd handlers')))))"

subsection \<open>Binding: \<open>get_handler_params\<close>\<close>

text \<open>The loop over the parameters; \<open>args.pop(0)\<close> raises \<open>IndexError\<close> on the empty list.\<close>

fun bind_parameters ::
  "parameter list \<Rightarrow> py_value list \<Rightarrow> (string \<rightharpoonup> py_value) \<Rightarrow> py_exception + (string \<rightharpoonup> py_value)"
where
  "bind_parameters [] vs kwargs = Inr kwargs"
| "bind_parameters (p # ps) (v # vs) kwargs = bind_parameters ps vs (kwargs(pname p \<mapsto> v))"
| "bind_parameters (p # ps) [] kwargs =
     (if nullable (annotation p) then bind_parameters ps [] (kwargs(pname p \<mapsto> NoneV))
      else
        (case pdefault p of
           Some d \<Rightarrow> bind_parameters ps [] (kwargs(pname p \<mapsto> d))
         | None \<Rightarrow> Inl IndexError))"

text \<open>
  The two \<open>parameters.pop(0)\<close> drop \<open>self\<close> and \<open>ctx\<close>, and raise \<open>IndexError\<close> when the
  function has fewer than two parameters.
\<close>

definition get_handler_params ::
  "pyfunction \<Rightarrow> py_value list \<Rightarrow> py_exception + (string \<rightharpoonup> py_value)"
where
  "get_handler_params function vs =
     (case parameters function of
        [] \<Rightarrow> Inl IndexError
      | [p] \<Rightarrow> Inl IndexError
      | p # q # ps \<Rightarrow> bind_parameters ps vs [''self'' \<mapsto> SelfObj, ''ctx'' \<mapsto> CtxObj])"

definition get_command ::
  "(string \<Rightarrow> string) \<Rightarrow> CommandManager \<Rightarrow> Handler list \<Rightarrow> string list
     \<Rightarrow> error + (pyfunction \<times> (string \<rightharpoonup> py_value))"
where
  "get_command ucd mgr Handler_handlers arguments =
     (case select_command ucd mgr Handler_handlers arguments of
        Inl e \<Rightarrow> Inl e
      | Inr (cmd, vs) \<Rightarrow>
          (case get_handler_params (handler cmd) vs of
             Inl IndexError \<Rightarrow> Inl (CommandInfoError cmd)
           | Inr kwargs \<Rightarrow> Inr (handler cmd, kwargs)))"

section \<open>\<open>get_command\<close> on a store of list objects\<close>

text \<open>
  \<open>get_command\<close> changes lists in place. To follow which list object each statement
  changes, the list objects that hold handlers live in a store, and a variable holds the
  address of its list. \<open>Handler.handlers\<close> is such an object; \<open>list(x)\<close> makes a new one.
  A handler object is a value: \<open>get_command\<close> reads \<open>cmd.args\<close>, \<open>cmd.handler\<close> and
  \<open>cmd.ignore_args_size\<close> and assigns to no attribute. The dict \<open>_args\<close>, its lists and
  \<open>arg_errors\<close> are made by the call and are kept as values.
\<close>

type_synonym addr = nat

record store =
  list_objs :: "addr \<Rightarrow> Handler list"
  next_addr :: addr

text \<open>\<open>list(x)\<close>: a new list object with the elements of \<open>x\<close>.\<close>

definition list_copy :: "addr \<Rightarrow> store \<Rightarrow> addr \<times> store" where
  "list_copy a s =
     (next_addr s, s\<lparr>list_objs := (list_objs s)(next_addr s := list_objs s a), next_addr := Suc (next_addr s)\<rparr>)"

text \<open>\<open>x.remove(cmd)\<close>, in place.\<close>

definition list_remove :: "addr \<Rightarrow> Handler \<Rightarrow> store \<Rightarrow> store" where
  "list_remove a cmd s = s\<lparr>list_objs := (list_objs s)(a := remove1 cmd (list_objs s a))\<rparr>"

text \<open>
  The functions of the scan again, with the local variable \<open>handlers\<close> as an address.
  Each returns the store it leaves, also when it raises.
\<close>

definition st_scan_cmd ::
  "(string \<Rightarrow> string) \<Rightarrow> CommandManager \<Rightarrow> string list \<Rightarrow> nat \<Rightarrow> string \<Rightarrow> Handler \<Rightarrow> addr
     \<Rightarrow> (Handler \<Rightarrow> py_value list) \<Rightarrow> store \<Rightarrow> (error + (Handler \<Rightarrow> py_value list)) \<times> store"
where
  "st_scan_cmd ucd mgr arguments idx arg cmd handlers as s =
     (if length (args cmd) \<le> idx then
        (if \<not> ignore_args_size cmd then (Inr as, list_remove handlers cmd s)
         else (Inr as, s))
      else
        (case first_only (args cmd ! idx) of
           Literal t \<Rightarrow>
             if lower ucd t \<noteq> lower ucd arg then (Inr as, list_remove handlers cmd s)
             else (Inr as, s)
         | Parser p \<Rightarrow>
             (case parse ucd mgr p arg of
                Inl message \<Rightarrow> (Inl (CommandMessageError message), s)
              | Inr v \<Rightarrow> (Inr (as(cmd := as cmd @ [v])), s))
         | Type t \<Rightarrow>
             if t = Plain StrT then (Inr (as(cmd := as cmd @ [Str arg])), s)
             else if t = Plain ListT \<or> t = Plain ListStrT then
               (Inr (as(cmd := as cmd @ [StrList (drop idx arguments)])), s)
             else (Inr as, s)))"

fun st_scan_cmds ::
  "(string \<Rightarrow> string) \<Rightarrow> CommandManager \<Rightarrow> string list \<Rightarrow> nat \<Rightarrow> string \<Rightarrow> Handler list \<Rightarrow> addr
     \<Rightarrow> (Handler \<Rightarrow> py_value list) \<Rightarrow> store \<Rightarrow> (error + (Handler \<Rightarrow> py_value list)) \<times> store"
where
  "st_scan_cmds ucd mgr arguments idx arg [] handlers as s = (Inr as, s)"
| "st_scan_cmds ucd mgr arguments idx arg (cmd # cmds) handlers as s =
     (case st_scan_cmd ucd mgr arguments idx arg cmd handlers as s of
        (Inl e, s') \<Rightarrow> (Inl e, s')
      | (Inr as', s') \<Rightarrow> st_scan_cmds ucd mgr arguments idx arg cmds handlers as' s')"

fun st_scan_args ::
  "(string \<Rightarrow> string) \<Rightarrow> CommandManager \<Rightarrow> string list \<Rightarrow> nat \<Rightarrow> string list \<Rightarrow> addr
     \<Rightarrow> (Handler \<Rightarrow> py_value list) \<Rightarrow> store \<Rightarrow> (error + (Handler \<Rightarrow> py_value list)) \<times> store"
where
  "st_scan_args ucd mgr arguments idx [] handlers as s = (Inr as, s)"
| "st_scan_args ucd mgr arguments idx (arg # rest) handlers as s =
     (case st_scan_cmds ucd mgr arguments idx arg (list_objs s handlers) handlers as s of
        (Inl e, s') \<Rightarrow> (Inl e, s')
      | (Inr as', s') \<Rightarrow> st_scan_args ucd mgr arguments (Suc idx) rest handlers as' s')"

fun st_check_arity ::
  "nat \<Rightarrow> Handler list \<Rightarrow> addr \<Rightarrow> Handler list \<Rightarrow> store \<Rightarrow> Handler list \<times> store"
where
  "st_check_arity n [] handlers arg_errors s = (arg_errors, s)"
| "st_check_arity n (cmd # cmds) handlers arg_errors s =
     (if missing_required (drop n (args cmd))
      then st_check_arity n cmds handlers (arg_errors @ [cmd]) (list_remove handlers cmd s)
      else st_check_arity n cmds handlers arg_errors s)"

definition st_get_command ::
  "(string \<Rightarrow> string) \<Rightarrow> CommandManager \<Rightarrow> addr \<Rightarrow> string list \<Rightarrow> store
     \<Rightarrow> (error + (pyfunction \<times> (string \<rightharpoonup> py_value))) \<times> store"
where
  "st_get_command ucd mgr Handler_handlers_addr arguments s =
     (if arguments = [] then (Inl CommandNotFoundError, s)
      else
        (case list_copy Handler_handlers_addr s of
           (handlers, s1) \<Rightarrow>
             (case st_scan_args ucd mgr arguments 0 arguments handlers (\<lambda>hdl. []) s1 of
                (Inl e, s2) \<Rightarrow> (Inl e, s2)
              | (Inr as, s2) \<Rightarrow>
                  if list_objs s2 handlers = [] then (Inl CommandNotFoundError, s2)
                  else
                    (case st_check_arity (length arguments) (list_objs s2 handlers) handlers [] s2 of
                       (arg_errors, s3) \<Rightarrow>
                         if list_objs s3 handlers = [] then
                           (if length arg_errors = 1
                            then (Inl (CommandInfoError (hd arg_errors)), s3)
                            else (Inl CommandNotFoundError, s3))
                         else
                           (let cmd = hd (list_objs s3 handlers) in
                            case get_handler_params (handler cmd) (as cmd) of
                              Inl IndexError \<Rightarrow> (Inl (CommandInfoError cmd), s3)
                            | Inr kwargs \<Rightarrow> (Inr (handler cmd, kwargs), s3))))))"

section \<open>The registered handlers\<close>

text \<open>
  The functions decorated with \<open>@Handler(...)\<close> in \<open>MyCommandHandler\<close>, in the order of the
  source. A function is named by the line of its \<open>def\<close>, a handler object by the line of its
  decorator.
\<close>

definition handler_172 :: pyfunction where
  "handler_172 =
     \<lparr>lineno = 172,
      parameters =
       [\<lparr>pname = ''self'', annotation = Plain (OtherT ''inspect._empty''), pdefault = None\<rparr>,
        \<lparr>pname = ''ctx'', annotation = Plain (OtherT ''CommandContext''), pdefault = None\<rparr>],
      doc = None\<rparr>"

definition doc_204 :: string where
  "doc_204 =
     utf8 [10] @ ''        {command} addCommand (''
     @ utf8 [227, 130, 179, 227, 131, 158, 227, 131, 179, 227, 131, 137, 229, 144, 141]
     @ '') ['' @ utf8 [227, 131, 143, 227, 131, 179, 227, 131, 137, 227, 131, 169]
     @ ''ID] ['' @ utf8 [227, 130, 171, 227, 131, 134, 227, 130, 180, 227, 131, 170] @ '']''
     @ utf8 [10, 10] @ ''        ''
     @ utf8 [227, 130, 179, 227, 131, 158, 227, 131, 179, 227, 131, 137, 227, 130, 146,
     232, 191, 189, 229, 138, 160, 231, 153, 187, 233, 140, 178, 227, 129, 151, 227, 129,
     190, 227, 129, 153, 227, 128, 130, 10] @ ''        '' @ utf8 [226, 128, 187] @ '' ''
     @ utf8 [227, 131, 143, 227, 131, 179, 227, 131, 137, 227, 131, 169] @ ''ID''
     @ utf8 [227, 130, 146, 231, 156, 129, 231, 149, 165, 227, 129, 151, 227, 129, 159,
     229, 160, 180, 229, 144, 136, 227, 129, 175, 227, 128, 129, 10] @ ''        ''
     @ utf8 [227, 128, 128] @ '' ''
     @ utf8 [227, 130, 179, 227, 131, 158, 227, 131, 179, 227, 131, 137, 229, 144, 141,
     227, 129, 171, 228, 184, 128, 232, 135, 180, 227, 129, 153, 227, 130, 139, 227, 131,
     143, 227, 131, 179, 227, 131, 137, 227, 131, 169, 227, 130, 146] @ ''1''
     @ utf8 [227, 129, 164, 233, 129, 184, 230, 138, 158, 227, 129, 151, 227, 129, 190,
     227, 129, 153, 10] @ ''        ''"

definition handler_204 :: pyfunction where
  "handler_204 =
     \<lparr>lineno = 204,
      parameters =
       [\<lparr>pname = ''self'', annotation = Plain (OtherT ''inspect._empty''), pdefault = None\<rparr>,
        \<lparr>pname = ''ctx'', annotation = Plain (OtherT ''CommandContext''), pdefault = None\<rparr>,
        \<lparr>pname = ''name'', annotation = Plain StrT, pdefault = None\<rparr>,
        \<lparr>pname = ''handler_id'', annotation = Union [StrT, NoneT], pdefault = None\<rparr>,
        \<lparr>pname = ''category'', annotation = Union [StrT, NoneT], pdefault = None\<rparr>],
      doc = Some doc_204\<rparr>"

definition doc_233 :: string where
  "doc_233 =
     utf8 [10] @ ''        {command} removeCommand (''
     @ utf8 [227, 130, 179, 227, 131, 158, 227, 131, 179, 227, 131, 137, 229, 144, 141]
     @ '')'' @ utf8 [10, 10] @ ''        ''
     @ utf8 [227, 130, 179, 227, 131, 158, 227, 131, 179, 227, 131, 137, 227, 130, 146,
     229, 137, 138, 233, 153, 164, 227, 129, 151, 227, 129, 190, 227, 129, 153, 10]
     @ ''        '' @ utf8 [226, 128, 187] @ '' ''
     @ utf8 [229, 136, 165, 229, 144, 141, 227, 129, 170, 227, 129, 169, 227, 129, 174,
     227, 130, 179, 227, 131, 158, 227, 131, 179, 227, 131, 137, 232, 168, 173, 229, 174,
     154, 227, 130, 130, 229, 137, 138, 233, 153, 164, 227, 129, 149, 227, 130, 140, 227,
     129, 190, 227, 129, 153, 10] @ ''        ''"

definition handler_233 :: pyfunction where
  "handler_233 =
     \<lparr>lineno = 233,
      parameters =
       [\<lparr>pname = ''self'', annotation = Plain (OtherT ''inspect._empty''), pdefault = None\<rparr>,
        \<lparr>pname = ''ctx'', annotation = Plain (OtherT ''CommandContext''), pdefault = None\<rparr>,
        \<lparr>pname = ''name'', annotation = Plain (OtherT ''tuple[str, CommandEntry]''), pdefault = None\<rparr>],
      doc = Some doc_233\<rparr>"

definition doc_256 :: string where
  "doc_256 =
     utf8 [10] @ ''        {command} command (''
     @ utf8 [227, 130, 179, 227, 131, 158, 227, 131, 179, 227, 131, 137] @ '') info''
     @ utf8 [10, 10] @ ''        ''
     @ utf8 [227, 130, 179, 227, 131, 158, 227, 131, 179, 227, 131, 137, 230, 131, 133,
     229, 160, 177, 227, 130, 146, 232, 161, 168, 231, 164, 186, 227, 129, 151, 227, 129,
     190, 227, 129, 153, 10] @ ''        ''"

definition handler_256 :: pyfunction where
  "handler_256 =
     \<lparr>lineno = 256,
      parameters =
       [\<lparr>pname = ''self'', annotation = Plain (OtherT ''inspect._empty''), pdefault = None\<rparr>,
        \<lparr>pname = ''ctx'', annotation = Plain (OtherT ''CommandContext''), pdefault = None\<rparr>,
        \<lparr>pname = ''name'', annotation = Plain (OtherT ''tuple[str, CommandEntry]''), pdefault = None\<rparr>],
      doc = Some doc_256\<rparr>"

definition doc_272 :: string where
  "doc_272 =
     utf8 [10] @ ''        {command} command (''
     @ utf8 [227, 130, 179, 227, 131, 158, 227, 131, 179, 227, 131, 137] @ '') info''
     @ utf8 [10, 10] @ ''        ''
     @ utf8 [227, 130, 179, 227, 131, 158, 227, 131, 179, 227, 131, 137, 230, 131, 133,
     229, 160, 177, 227, 130, 146, 232, 161, 168, 231, 164, 186, 227, 129, 151, 227, 129,
     190, 227, 129, 153, 10] @ ''        ''"

definition handler_272 :: pyfunction where
  "handler_272 =
     \<lparr>lineno = 272,
      parameters =
       [\<lparr>pname = ''self'', annotation = Plain (OtherT ''inspect._empty''), pdefault = None\<rparr>,
        \<lparr>pname = ''ctx'', annotation = Plain (OtherT ''CommandContext''), pdefault = None\<rparr>,
        \<lparr>pname = ''name'', annotation = Plain (OtherT ''tuple[str, CommandEntry]''), pdefault = None\<rparr>],
      doc = Some doc_272\<rparr>"

definition doc_288 :: string where
  "doc_288 =
     utf8 [10] @ ''        {command} command (''
     @ utf8 [227, 130, 179, 227, 131, 158, 227, 131, 179, 227, 131, 137]
     @ '') setHandler (''
     @ utf8 [227, 131, 143, 227, 131, 179, 227, 131, 137, 227, 131, 169] @ ''ID)''
     @ utf8 [10, 10] @ ''        ''
     @ utf8 [227, 130, 179, 227, 131, 158, 227, 131, 179, 227, 131, 137, 227, 129, 174,
     229, 174, 159, 232, 161, 140, 229, 133, 131, 227, 131, 143, 227, 131, 179, 227, 131,
     137, 227, 131, 169, 227, 130, 146, 232, 168, 173, 229, 174, 154, 227, 129, 151, 227,
     129, 190, 227, 129, 153, 10] @ ''        ''"

definition handler_288 :: pyfunction where
  "handler_288 =
     \<lparr>lineno = 288,
      parameters =
       [\<lparr>pname = ''self'', annotation = Plain (OtherT ''inspect._empty''), pdefault = None\<rparr>,
        \<lparr>pname = ''ctx'', annotation = Plain (OtherT ''CommandContext''), pdefault = None\<rparr>,
        \<lparr>pname = ''name'', annotation = Plain (OtherT ''tuple[str, CommandEntry]''), pdefault = None\<rparr>,
        \<lparr>pname = ''handler_id'', annotation = Plain (OtherT ''CommandHandler''), pdefault = None\<rparr>],
      doc = Some doc_288\<rparr>"

definition doc_300 :: string where
  "doc_300 =
     utf8 [10] @ ''        {command} command (''
     @ utf8 [227, 130, 179, 227, 131, 158, 227, 131, 179, 227, 131, 137] @ '') addAlias (''
     @ utf8 [229, 136, 165, 229, 144, 141] @ ''...)'' @ utf8 [10, 10] @ ''        ''
     @ utf8 [227, 130, 179, 227, 131, 158, 227, 131, 179, 227, 131, 137, 227, 129, 171,
     229, 136, 165, 229, 144, 141, 227, 130, 146, 232, 191, 189, 229, 138, 160, 227, 129,
     151, 227, 129, 190, 227, 129, 153, 10] @ ''        ''"

definition handler_300 :: pyfunction where
  "handler_300 =
     \<lparr>lineno = 300,
      parameters =
       [\<lparr>pname = ''self'', annotation = Plain (OtherT ''inspect._empty''), pdefault = None\<rparr>,
        \<lparr>pname = ''ctx'', annotation = Plain (OtherT ''CommandContext''), pdefault = None\<rparr>,
        \<lparr>pname = ''name'', annotation = Plain (OtherT ''tuple[str, CommandEntry]''), pdefault = None\<rparr>,
        \<lparr>pname = ''alias'', annotation = Plain ListStrT, pdefault = None\<rparr>],
      doc = Some doc_300\<rparr>"

definition doc_328 :: string where
  "doc_328 =
     utf8 [10] @ ''        {command} command (''
     @ utf8 [227, 130, 179, 227, 131, 158, 227, 131, 179, 227, 131, 137]
     @ '') removeAlias ('' @ utf8 [229, 136, 165, 229, 144, 141] @ ''...)'' @ utf8 [10, 10]
     @ ''        ''
     @ utf8 [227, 130, 179, 227, 131, 158, 227, 131, 179, 227, 131, 137, 227, 129, 174,
     229, 136, 165, 229, 144, 141, 227, 130, 146, 229, 137, 138, 233, 153, 164, 227, 129,
     151, 227, 129, 190, 227, 129, 153, 10] @ ''        ''"

definition handler_328 :: pyfunction where
  "handler_328 =
     \<lparr>lineno = 328,
      parameters =
       [\<lparr>pname = ''self'', annotation = Plain (OtherT ''inspect._empty''), pdefault = None\<rparr>,
        \<lparr>pname = ''ctx'', annotation = Plain (OtherT ''CommandContext''), pdefault = None\<rparr>,
        \<lparr>pname = ''name'', annotation = Plain (OtherT ''tuple[str, CommandEntry]''), pdefault = None\<rparr>,
        \<lparr>pname = ''alias'', annotation = Plain ListStrT, pdefault = None\<rparr>],
      doc = Some doc_328\<rparr>"

definition doc_353 :: string where
  "doc_353 =
     utf8 [10] @ ''        {command} command (''
     @ utf8 [227, 130, 179, 227, 131, 158, 227, 131, 179, 227, 131, 137] @ '') setUsage (''
     @ utf8 [228, 189, 191, 231, 148, 168, 230, 179, 149] @ '')'' @ utf8 [10, 10]
     @ ''        ''
     @ utf8 [227, 130, 179, 227, 131, 158, 227, 131, 179, 227, 131, 137, 228, 189, 191,
     231, 148, 168, 230, 179, 149, 230, 150, 135, 227, 130, 146, 232, 168, 173, 229, 174,
     154, 227, 129, 151, 227, 129, 190, 227, 129, 153, 10] @ ''        ''"

definition handler_353 :: pyfunction where
  "handler_353 =
     \<lparr>lineno = 353,
      parameters =
       [\<lparr>pname = ''self'', annotation = Plain (OtherT ''inspect._empty''), pdefault = None\<rparr>,
        \<lparr>pname = ''ctx'', annotation = Plain (OtherT ''CommandContext''), pdefault = None\<rparr>,
        \<lparr>pname = ''name'', annotation = Plain (OtherT ''tuple[str, CommandEntry]''), pdefault = None\<rparr>,
        \<lparr>pname = ''usage'', annotation = Plain StrT, pdefault = None\<rparr>],
      doc = Some doc_353\<rparr>"

definition doc_370 :: string where
  "doc_370 =
     utf8 [10] @ ''        {command} command (''
     @ utf8 [227, 130, 179, 227, 131, 158, 227, 131, 179, 227, 131, 137] @ '') resetUsage''
     @ utf8 [10, 10] @ ''        ''
     @ utf8 [227, 130, 179, 227, 131, 158, 227, 131, 179, 227, 131, 137, 228, 189, 191,
     231, 148, 168, 230, 179, 149, 230, 150, 135, 227, 130, 146, 227, 131, 135, 227, 131,
     149, 227, 130, 169, 227, 131, 171, 227, 131, 136, 227, 129, 171, 232, 168, 173, 229,
     174, 154, 227, 129, 151, 227, 129, 190, 227, 129, 153, 10] @ ''        ''"

definition handler_370 :: pyfunction where
  "handler_370 =
     \<lparr>lineno = 370,
      parameters =
       [\<lparr>pname = ''self'', annotation = Plain (OtherT ''inspect._empty''), pdefault = None\<rparr>,
        \<lparr>pname = ''ctx'', annotation = Plain (OtherT ''CommandContext''), pdefault = None\<rparr>,
        \<lparr>pname = ''name'', annotation = Plain (OtherT ''tuple[str, CommandEntry]''), pdefault = None\<rparr>],
      doc = Some doc_370\<rparr>"

definition doc_387 :: string where
  "doc_387 =
     utf8 [10] @ ''        {command} command (''
     @ utf8 [227, 130, 179, 227, 131, 158, 227, 131, 179, 227, 131, 137]
     @ '') setCategory (''
     @ utf8 [227, 130, 171, 227, 131, 134, 227, 130, 180, 227, 131, 170] @ '')''
     @ utf8 [10, 10] @ ''        ''
     @ utf8 [227, 130, 179, 227, 131, 158, 227, 131, 179, 227, 131, 137, 227, 130, 146,
     230, 140, 135, 229, 174, 154, 227, 130, 171, 227, 131, 134, 227, 130, 180, 227, 131,
     170, 227, 129, 171, 232, 168, 173, 229, 174, 154, 227, 129, 151, 227, 129, 190, 227,
     129, 153, 10] @ ''        ''"

definition handler_387 :: pyfunction where
  "handler_387 =
     \<lparr>lineno = 387,
      parameters =
       [\<lparr>pname = ''self'', annotation = Plain (OtherT ''inspect._empty''), pdefault = None\<rparr>,
        \<lparr>pname = ''ctx'', annotation = Plain (OtherT ''CommandContext''), pdefault = None\<rparr>,
        \<lparr>pname = ''name'', annotation = Plain (OtherT ''tuple[str, CommandEntry]''), pdefault = None\<rparr>,
        \<lparr>pname = ''category'', annotation = Plain (OtherT ''tuple[str, CommandCategory]''), pdefault = None\<rparr>],
      doc = Some doc_387\<rparr>"

definition doc_410 :: string where
  "doc_410 =
     utf8 [10] @ ''        {command} command (''
     @ utf8 [227, 130, 179, 227, 131, 158, 227, 131, 179, 227, 131, 137]
     @ '') resetCategory'' @ utf8 [10, 10] @ ''        ''
     @ utf8 [227, 130, 179, 227, 131, 158, 227, 131, 179, 227, 131, 137, 227, 130, 146,
     227, 129, 157, 227, 129, 174, 228, 187, 150, 227, 130, 171, 227, 131, 134, 227, 130,
     180, 227, 131, 170, 227, 129, 171, 232, 168, 173, 229, 174, 154, 227, 129, 151, 227,
     129, 190, 227, 129, 153, 10] @ ''        ''"

definition handler_410 :: pyfunction where
  "handler_410 =
     \<lparr>lineno = 410,
      parameters =
       [\<lparr>pname = ''self'', annotation = Plain (OtherT ''inspect._empty''), pdefault = None\<rparr>,
        \<lparr>pname = ''ctx'', annotation = Plain (OtherT ''CommandContext''), pdefault = None\<rparr>,
        \<lparr>pname = ''name'', annotation = Plain (OtherT ''tuple[str, CommandEntry]''), pdefault = None\<rparr>],
      doc = Some doc_410\<rparr>"

definition doc_431 :: string where
  "doc_431 =
     utf8 [10] @ ''        {command} command (''
     @ utf8 [227, 130, 179, 227, 131, 158, 227, 131, 179, 227, 131, 137] @ '') test (''
     @ utf8 [227, 131, 166, 227, 131, 188, 227, 130, 182, 227, 131, 188] @ '')''
     @ utf8 [10, 10] @ ''        ''
     @ utf8 [230, 140, 135, 229, 174, 154, 227, 131, 166, 227, 131, 188, 227, 130, 182,
     227, 131, 188, 227, 129, 140, 227, 130, 179, 227, 131, 158, 227, 131, 179, 227, 131,
     137, 227, 129, 174, 229, 174, 159, 232, 161, 140, 230, 168, 169, 233, 153, 144, 227,
     130, 146, 230, 140, 129, 227, 129, 163, 227, 129, 166, 227, 129, 132, 227, 130, 139,
     227, 129, 139, 227, 131, 134, 227, 130, 185, 227, 131, 136, 227, 129, 151, 227, 129,
     190, 227, 129, 153, 10] @ ''        ''"

definition handler_431 :: pyfunction where
  "handler_431 =
     \<lparr>lineno = 431,
      parameters =
       [\<lparr>pname = ''self'', annotation = Plain (OtherT ''inspect._empty''), pdefault = None\<rparr>,
        \<lparr>pname = ''ctx'', annotation = Plain (OtherT ''CommandContext''), pdefault = None\<rparr>,
        \<lparr>pname = ''name'', annotation = Plain (OtherT ''tuple[str, CommandEntry]''), pdefault = None\<rparr>,
        \<lparr>pname = ''user'', annotation = Plain StrT, pdefault = None\<rparr>],
      doc = Some doc_431\<rparr>"

definition doc_461 :: string where
  "doc_461 =
     utf8 [10] @ ''        {command} listGroups'' @ utf8 [10, 10] @ ''        ''
     @ utf8 [227, 130, 176, 227, 131, 171, 227, 131, 188, 227, 131, 151, 227, 130, 146,
     228, 184, 128, 232, 166, 167, 227, 129, 151, 227, 129, 190, 227, 129, 153, 10]
     @ ''        ''"

definition handler_461 :: pyfunction where
  "handler_461 =
     \<lparr>lineno = 461,
      parameters =
       [\<lparr>pname = ''self'', annotation = Plain (OtherT ''inspect._empty''), pdefault = None\<rparr>,
        \<lparr>pname = ''ctx'', annotation = Plain (OtherT ''CommandContext''), pdefault = None\<rparr>],
      doc = Some doc_461\<rparr>"

definition doc_488 :: string where
  "doc_488 =
     utf8 [10] @ ''        {command} createGroup (''
     @ utf8 [227, 130, 176, 227, 131, 171, 227, 131, 188, 227, 131, 151, 229, 144, 141]
     @ '') [''
     @ utf8 [232, 168, 177, 229, 143, 175, 227, 130, 179, 227, 131, 158, 227, 131, 179,
     227, 131, 137] @ ''...]'' @ utf8 [10, 10] @ ''        ''
     @ utf8 [232, 168, 177, 229, 143, 175, 227, 130, 176, 227, 131, 171, 227, 131, 188,
     227, 131, 151, 227, 130, 146, 228, 189, 156, 230, 136, 144, 227, 129, 151, 227, 129,
     190, 227, 129, 153, 10] @ ''        ''"

definition handler_488 :: pyfunction where
  "handler_488 =
     \<lparr>lineno = 488,
      parameters =
       [\<lparr>pname = ''self'', annotation = Plain (OtherT ''inspect._empty''), pdefault = None\<rparr>,
        \<lparr>pname = ''ctx'', annotation = Plain (OtherT ''CommandContext''), pdefault = None\<rparr>,
        \<lparr>pname = ''name'', annotation = Plain StrT, pdefault = None\<rparr>,
        \<lparr>pname = ''allowed_commands'', annotation = Union [ListStrT, NoneT], pdefault = None\<rparr>],
      doc = Some doc_488\<rparr>"

definition doc_510 :: string where
  "doc_510 =
     utf8 [10] @ ''        {command} deleteGroup (''
     @ utf8 [227, 130, 176, 227, 131, 171, 227, 131, 188, 227, 131, 151, 229, 144, 141]
     @ '')'' @ utf8 [10, 10] @ ''        ''
     @ utf8 [232, 168, 177, 229, 143, 175, 227, 130, 176, 227, 131, 171, 227, 131, 188,
     227, 131, 151, 227, 130, 146, 229, 137, 138, 233, 153, 164, 227, 129, 151, 227, 129,
     190, 227, 129, 153, 10] @ ''        ''"

definition handler_510 :: pyfunction where
  "handler_510 =
     \<lparr>lineno = 510,
      parameters =
       [\<lparr>pname = ''self'', annotation = Plain (OtherT ''inspect._empty''), pdefault = None\<rparr>,
        \<lparr>pname = ''ctx'', annotation = Plain (OtherT ''CommandContext''), pdefault = None\<rparr>,
        \<lparr>pname = ''name'', annotation = Plain (OtherT ''tuple[str, PermissionGroup]''), pdefault = None\<rparr>],
      doc = Some doc_510\<rparr>"

definition doc_524 :: string where
  "doc_524 =
     utf8 [10] @ ''        {command} group (''
     @ utf8 [227, 130, 176, 227, 131, 171, 227, 131, 188, 227, 131, 151] @ '') info''
     @ utf8 [10, 10] @ ''        ''
     @ utf8 [227, 130, 176, 227, 131, 171, 227, 131, 188, 227, 131, 151, 227, 129, 174,
     230, 131, 133, 229, 160, 177, 227, 130, 146, 232, 161, 168, 231, 164, 186, 227, 129,
     151, 227, 129, 190, 227, 129, 153, 10] @ ''        ''"

definition handler_524 :: pyfunction where
  "handler_524 =
     \<lparr>lineno = 524,
      parameters =
       [\<lparr>pname = ''self'', annotation = Plain (OtherT ''inspect._empty''), pdefault = None\<rparr>,
        \<lparr>pname = ''ctx'', annotation = Plain (OtherT ''CommandContext''), pdefault = None\<rparr>,
        \<lparr>pname = ''name'', annotation = Plain (OtherT ''tuple[str, PermissionGroup]''), pdefault = None\<rparr>],
      doc = Some doc_524\<rparr>"

definition doc_547 :: string where
  "doc_547 =
     utf8 [10] @ ''        {command} group (''
     @ utf8 [227, 130, 176, 227, 131, 171, 227, 131, 188, 227, 131, 151] @ '') info''
     @ utf8 [10, 10] @ ''        ''
     @ utf8 [227, 130, 176, 227, 131, 171, 227, 131, 188, 227, 131, 151, 227, 129, 174,
     230, 131, 133, 229, 160, 177, 227, 130, 146, 232, 161, 168, 231, 164, 186, 227, 129,
     151, 227, 129, 190, 227, 129, 153, 10] @ ''        ''"

definition handler_547 :: pyfunction where
  "handler_547 =
     \<lparr>lineno = 547,
      parameters =
       [\<lparr>pname = ''self'', annotation = Plain (OtherT ''inspect._empty''), pdefault = None\<rparr>,
        \<lparr>pname = ''ctx'', annotation = Plain (OtherT ''CommandContext''), pdefault = None\<rparr>,
        \<lparr>pname = ''name'', annotation = Plain (OtherT ''tuple[str, PermissionGroup]''), pdefault = None\<rparr>],
      doc = Some doc_547\<rparr>"

definition doc_570 :: string where
  "doc_570 =
     utf8 [10] @ ''        {command} group (''
     @ utf8 [227, 130, 176, 227, 131, 171, 227, 131, 188, 227, 131, 151]
     @ '') addCommand (''
     @ utf8 [227, 130, 179, 227, 131, 158, 227, 131, 179, 227, 131, 137] @ ''...)''
     @ utf8 [10, 10] @ ''        ''
     @ utf8 [232, 168, 177, 229, 143, 175, 227, 129, 153, 227, 130, 139, 227, 130, 179,
     227, 131, 158, 227, 131, 179, 227, 131, 137, 227, 130, 146, 227, 130, 176, 227, 131,
     171, 227, 131, 188, 227, 131, 151, 227, 129, 171, 232, 191, 189, 229, 138, 160, 227,
     129, 151, 227, 129, 190, 227, 129, 153, 10] @ ''        ''"

definition handler_570 :: pyfunction where
  "handler_570 =
     \<lparr>lineno = 570,
      parameters =
       [\<lparr>pname = ''self'', annotation = Plain (OtherT ''inspect._empty''), pdefault = None\<rparr>,
        \<lparr>pname = ''ctx'', annotation = Plain (OtherT ''CommandContext''), pdefault = None\<rparr>,
        \<lparr>pname = ''name'', annotation = Plain (OtherT ''tuple[str, PermissionGroup]''), pdefault = None\<rparr>,
        \<lparr>pname = ''command'', annotation = Plain (OtherT ''tuple[str, CommandEntry]''), pdefault = None\<rparr>],
      doc = Some doc_570\<rparr>"

definition doc_592 :: string where
  "doc_592 =
     utf8 [10] @ ''        {command} group (''
     @ utf8 [227, 130, 176, 227, 131, 171, 227, 131, 188, 227, 131, 151]
     @ '') removeCommand (''
     @ utf8 [227, 130, 179, 227, 131, 158, 227, 131, 179, 227, 131, 137] @ '')''
     @ utf8 [10, 10] @ ''        ''
     @ utf8 [232, 168, 177, 229, 143, 175, 227, 129, 149, 227, 130, 140, 227, 129, 166,
     227, 129, 132, 227, 130, 139, 227, 130, 179, 227, 131, 158, 227, 131, 179, 227, 131,
     137, 227, 130, 146, 227, 130, 176, 227, 131, 171, 227, 131, 188, 227, 131, 151, 227,
     129, 139, 227, 130, 137, 229, 137, 138, 233, 153, 164, 227, 129, 151, 227, 129, 190,
     227, 129, 153, 10] @ ''        ''"

definition handler_592 :: pyfunction where
  "handler_592 =
     \<lparr>lineno = 592,
      parameters =
       [\<lparr>pname = ''self'', annotation = Plain (OtherT ''inspect._empty''), pdefault = None\<rparr>,
        \<lparr>pname = ''ctx'', annotation = Plain (OtherT ''CommandContext''), pdefault = None\<rparr>,
        \<lparr>pname = ''name'', annotation = Plain (OtherT ''tuple[str, PermissionGroup]''), pdefault = None\<rparr>,
        \<lparr>pname = ''command'', annotation = Plain (OtherT ''tuple[str, CommandEntry]''), pdefault = None\<rparr>],
      doc = Some doc_592\<rparr>"

definition doc_614 :: string where
  "doc_614 =
     utf8 [10] @ ''        {command} group (''
     @ utf8 [227, 130, 176, 227, 131, 171, 227, 131, 188, 227, 131, 151] @ '') addUser (''
     @ utf8 [227, 131, 166, 227, 131, 188, 227, 130, 182, 227, 131, 188] @ '')''
     @ utf8 [10, 10] @ ''        ''
     @ utf8 [230, 140, 135, 229, 174, 154, 227, 131, 166, 227, 131, 188, 227, 130, 182,
     227, 131, 188, 227, 130, 146, 227, 130, 176, 227, 131, 171, 227, 131, 188, 227, 131,
     151, 227, 129, 171, 232, 191, 189, 229, 138, 160, 227, 129, 151, 227, 129, 190, 227,
     129, 153, 10] @ ''        ''"

definition handler_614 :: pyfunction where
  "handler_614 =
     \<lparr>lineno = 614,
      parameters =
       [\<lparr>pname = ''self'', annotation = Plain (OtherT ''inspect._empty''), pdefault = None\<rparr>,
        \<lparr>pname = ''ctx'', annotation = Plain (OtherT ''CommandContext''), pdefault = None\<rparr>,
        \<lparr>pname = ''name'', annotation = Plain (OtherT ''tuple[str, PermissionGroup]''), pdefault = None\<rparr>,
        \<lparr>pname = ''user'', annotation = Plain StrT, pdefault = None\<rparr>],
      doc = Some doc_614\<rparr>"

definition doc_642 :: string where
  "doc_642 =
     utf8 [10] @ ''        {command} group (''
     @ utf8 [227, 130, 176, 227, 131, 171, 227, 131, 188, 227, 131, 151]
     @ '') removeUser (''
     @ utf8 [227, 131, 166, 227, 131, 188, 227, 130, 182, 227, 131, 188] @ '')''
     @ utf8 [10, 10] @ ''        ''
     @ utf8 [230, 140, 135, 229, 174, 154, 227, 131, 166, 227, 131, 188, 227, 130, 182,
     227, 131, 188, 227, 130, 146, 227, 130, 176, 227, 131, 171, 227, 131, 188, 227, 131,
     151, 227, 129, 139, 227, 130, 137, 229, 137, 138, 233, 153, 164, 227, 129, 151, 227,
     129, 190, 227, 129, 153, 10] @ ''        ''"

definition handler_642 :: pyfunction where
  "handler_642 =
     \<lparr>lineno = 642,
      parameters =
       [\<lparr>pname = ''self'', annotation = Plain (OtherT ''inspect._empty''), pdefault = None\<rparr>,
        \<lparr>pname = ''ctx'', annotation = Plain (OtherT ''CommandContext''), pdefault = None\<rparr>,
        \<lparr>pname = ''name'', annotation = Plain (OtherT ''tuple[str, PermissionGroup]''), pdefault = None\<rparr>,
        \<lparr>pname = ''user'', annotation = Plain StrT, pdefault = None\<rparr>],
      doc = Some doc_642\<rparr>"

definition doc_670 :: string where
  "doc_670 =
     utf8 [10] @ ''        {command} group (''
     @ utf8 [227, 130, 176, 227, 131, 171, 227, 131, 188, 227, 131, 151] @ '') addRole (''
     @ utf8 [229, 189, 185, 232, 129, 183] @ '')'' @ utf8 [10, 10] @ ''        ''
     @ utf8 [230, 140, 135, 229, 174, 154, 229, 189, 185, 232, 129, 183, 227, 130, 146,
     227, 130, 176, 227, 131, 171, 227, 131, 188, 227, 131, 151, 227, 129, 171, 232, 168,
     173, 229, 174, 154, 227, 129, 151, 227, 129, 190, 227, 129, 153, 10] @ ''        ''"

definition handler_670 :: pyfunction where
  "handler_670 =
     \<lparr>lineno = 670,
      parameters =
       [\<lparr>pname = ''self'', annotation = Plain (OtherT ''inspect._empty''), pdefault = None\<rparr>,
        \<lparr>pname = ''ctx'', annotation = Plain (OtherT ''CommandContext''), pdefault = None\<rparr>,
        \<lparr>pname = ''name'', annotation = Plain (OtherT ''tuple[str, PermissionGroup]''), pdefault = None\<rparr>,
        \<lparr>pname = ''role'', annotation = Plain StrT, pdefault = None\<rparr>],
      doc = Some doc_670\<rparr>"

definition doc_694 :: string where
  "doc_694 =
     utf8 [10] @ ''        {command} group (''
     @ utf8 [227, 130, 176, 227, 131, 171, 227, 131, 188, 227, 131, 151]
     @ '') removeRole ('' @ utf8 [229, 189, 185, 232, 129, 183] @ '')'' @ utf8 [10, 10]
     @ ''        ''
     @ utf8 [230, 140, 135, 229, 174, 154, 229, 189, 185, 232, 129, 183, 227, 129, 174,
     227, 130, 176, 227, 131, 171, 227, 131, 188, 227, 131, 151, 227, 130, 146, 229, 137,
     138, 233, 153, 164, 227, 129, 151, 227, 129, 190, 227, 129, 153, 10] @ ''        ''"

definition handler_694 :: pyfunction where
  "handler_694 =
     \<lparr>lineno = 694,
      parameters =
       [\<lparr>pname = ''self'', annotation = Plain (OtherT ''inspect._empty''), pdefault = None\<rparr>,
        \<lparr>pname = ''ctx'', annotation = Plain (OtherT ''CommandContext''), pdefault = None\<rparr>,
        \<lparr>pname = ''name'', annotation = Plain (OtherT ''tuple[str, PermissionGroup]''), pdefault = None\<rparr>,
        \<lparr>pname = ''role'', annotation = Plain StrT, pdefault = None\<rparr>],
      doc = Some doc_694\<rparr>"

definition doc_718 :: string where
  "doc_718 =
     utf8 [10] @ ''        {command} listCategories'' @ utf8 [10, 10] @ ''        ''
     @ utf8 [227, 130, 171, 227, 131, 134, 227, 130, 180, 227, 131, 170, 227, 130, 146,
     228, 184, 128, 232, 166, 167, 227, 129, 151, 227, 129, 190, 227, 129, 153, 10]
     @ ''        ''"

definition handle_718 :: pyfunction where
  "handle_718 =
     \<lparr>lineno = 718,
      parameters =
       [\<lparr>pname = ''self'', annotation = Plain (OtherT ''inspect._empty''), pdefault = None\<rparr>,
        \<lparr>pname = ''ctx'', annotation = Plain (OtherT ''CommandContext''), pdefault = None\<rparr>],
      doc = Some doc_718\<rparr>"

definition doc_743 :: string where
  "doc_743 =
     utf8 [10] @ ''        {command} addCategory (''
     @ utf8 [227, 130, 171, 227, 131, 134, 227, 130, 180, 227, 131, 170, 229, 144, 141]
     @ '') ['' @ utf8 [232, 161, 168, 231, 164, 186, 229, 144, 141] @ ''] [''
     @ utf8 [227, 130, 179, 227, 131, 158, 227, 131, 179, 227, 131, 137] @ ''...]''
     @ utf8 [10, 10] @ ''        ''
     @ utf8 [227, 130, 171, 227, 131, 134, 227, 130, 180, 227, 131, 170, 227, 130, 146,
     228, 189, 156, 230, 136, 144, 227, 129, 151, 227, 129, 190, 227, 129, 153, 10]
     @ ''        ''"

definition handler_743 :: pyfunction where
  "handler_743 =
     \<lparr>lineno = 743,
      parameters =
       [\<lparr>pname = ''self'', annotation = Plain (OtherT ''inspect._empty''), pdefault = None\<rparr>,
        \<lparr>pname = ''ctx'', annotation = Plain (OtherT ''CommandContext''), pdefault = None\<rparr>,
        \<lparr>pname = ''name'', annotation = Plain StrT, pdefault = None\<rparr>,
        \<lparr>pname = ''label'', annotation = Union [StrT, NoneT], pdefault = None\<rparr>,
        \<lparr>pname = ''commands'', annotation = Union [ListStrT, NoneT], pdefault = None\<rparr>],
      doc = Some doc_743\<rparr>"

definition doc_775 :: string where
  "doc_775 =
     utf8 [10] @ ''        {command} removeCategory (''
     @ utf8 [227, 130, 171, 227, 131, 134, 227, 130, 180, 227, 131, 170, 229, 144, 141]
     @ '')'' @ utf8 [10, 10] @ ''        ''
     @ utf8 [227, 130, 171, 227, 131, 134, 227, 130, 180, 227, 131, 170, 227, 130, 146,
     229, 137, 138, 233, 153, 164, 227, 129, 151, 227, 129, 190, 227, 129, 153, 10]
     @ ''        '' @ utf8 [226, 128, 187] @ '' ''
     @ utf8 [232, 168, 173, 229, 174, 154, 227, 129, 149, 227, 130, 140, 227, 129, 166,
     227, 129, 132, 227, 129, 159, 227, 130, 179, 227, 131, 158, 227, 131, 179, 227, 131,
     137, 227, 129, 175, 227, 129, 157, 227, 129, 174, 228, 187, 150, 227, 130, 171, 227,
     131, 134, 227, 130, 180, 227, 131, 170, 227, 129, 171, 231, 167, 187, 229, 139, 149,
     227, 129, 149, 227, 130, 140, 227, 129, 190, 227, 129, 153, 10] @ ''        ''"

definition handler_775 :: pyfunction where
  "handler_775 =
     \<lparr>lineno = 775,
      parameters =
       [\<lparr>pname = ''self'', annotation = Plain (OtherT ''inspect._empty''), pdefault = None\<rparr>,
        \<lparr>pname = ''ctx'', annotation = Plain (OtherT ''CommandContext''), pdefault = None\<rparr>,
        \<lparr>pname = ''name'', annotation = Plain (OtherT ''tuple[str, CommandCategory]''), pdefault = None\<rparr>],
      doc = Some doc_775\<rparr>"

definition doc_797 :: string where
  "doc_797 =
     utf8 [10] @ ''        {command} category (''
     @ utf8 [227, 130, 171, 227, 131, 134, 227, 130, 180, 227, 131, 170] @ '') info''
     @ utf8 [10, 10] @ ''        ''
     @ utf8 [227, 130, 171, 227, 131, 134, 227, 130, 180, 227, 131, 170, 227, 129, 174,
     230, 131, 133, 229, 160, 177, 227, 130, 146, 232, 161, 168, 231, 164, 186, 227, 129,
     151, 227, 129, 190, 227, 129, 153, 10] @ ''        ''"

definition handler_797 :: pyfunction where
  "handler_797 =
     \<lparr>lineno = 797,
      parameters =
       [\<lparr>pname = ''self'', annotation = Plain (OtherT ''inspect._empty''), pdefault = None\<rparr>,
        \<lparr>pname = ''ctx'', annotation = Plain (OtherT ''CommandContext''), pdefault = None\<rparr>,
        \<lparr>pname = ''name'', annotation = Plain (OtherT ''tuple[str, CommandCategory]''), pdefault = None\<rparr>],
      doc = Some doc_797\<rparr>"

definition doc_811 :: string where
  "doc_811 =
     utf8 [10] @ ''        {command} category (''
     @ utf8 [227, 130, 171, 227, 131, 134, 227, 130, 180, 227, 131, 170] @ '') info''
     @ utf8 [10, 10] @ ''        ''
     @ utf8 [227, 130, 171, 227, 131, 134, 227, 130, 180, 227, 131, 170, 227, 129, 174,
     230, 131, 133, 229, 160, 177, 227, 130, 146, 232, 161, 168, 231, 164, 186, 227, 129,
     151, 227, 129, 190, 227, 129, 153, 10] @ ''        ''"

definition handler_811 :: pyfunction where
  "handler_811 =
     \<lparr>lineno = 811,
      parameters =
       [\<lparr>pname = ''self'', annotation = Plain (OtherT ''inspect._empty''), pdefault = None\<rparr>,
        \<lparr>pname = ''ctx'', annotation = Plain (OtherT ''CommandContext''), pdefault = None\<rparr>,
        \<lparr>pname = ''name'', annotation = Plain (OtherT ''tuple[str, CommandCategory]''), pdefault = None\<rparr>],
      doc = Some doc_811\<rparr>"

definition doc_825 :: string where
  "doc_825 =
     utf8 [10] @ ''        {command} category (''
     @ utf8 [227, 130, 171, 227, 131, 134, 227, 130, 180, 227, 131, 170] @ '') move (''
     @ utf8 [231, 149, 170, 229, 143, 183] @ '')'' @ utf8 [10, 10] @ ''        ''
     @ utf8 [227, 130, 176, 227, 131, 171, 227, 131, 188, 227, 131, 151, 227, 130, 146,
     230, 140, 135, 229, 174, 154, 231, 149, 170, 229, 143, 183, 227, 129, 171, 228, 184,
     166, 227, 129, 179, 230, 155, 191, 227, 129, 136, 227, 129, 190, 227, 129, 153, 10]
     @ ''        ''"

definition handler_825 :: pyfunction where
  "handler_825 =
     \<lparr>lineno = 825,
      parameters =
       [\<lparr>pname = ''self'', annotation = Plain (OtherT ''inspect._empty''), pdefault = None\<rparr>,
        \<lparr>pname = ''ctx'', annotation = Plain (OtherT ''CommandContext''), pdefault = None\<rparr>,
        \<lparr>pname = ''name'', annotation = Plain (OtherT ''tuple[str, CommandCategory]''), pdefault = None\<rparr>,
        \<lparr>pname = ''number'', annotation = Plain StrT, pdefault = None\<rparr>],
      doc = Some doc_825\<rparr>"

definition doc_851 :: string where
  "doc_851 =
     utf8 [10] @ ''        {command} category (''
     @ utf8 [227, 130, 171, 227, 131, 134, 227, 130, 180, 227, 131, 170] @ '') setLabel (''
     @ utf8 [232, 161, 168, 231, 164, 186, 229, 144, 141] @ '')'' @ utf8 [10, 10]
     @ ''        ''
     @ utf8 [227, 130, 171, 227, 131, 134, 227, 130, 180, 227, 131, 170, 232, 161, 168,
     231, 164, 186, 229, 144, 141, 227, 130, 146, 232, 168, 173, 229, 174, 154, 227, 129,
     151, 227, 129, 190, 227, 129, 153, 10] @ ''        ''"

definition handler_851 :: pyfunction where
  "handler_851 =
     \<lparr>lineno = 851,
      parameters =
       [\<lparr>pname = ''self'', annotation = Plain (OtherT ''inspect._empty''), pdefault = None\<rparr>,
        \<lparr>pname = ''ctx'', annotation = Plain (OtherT ''CommandContext''), pdefault = None\<rparr>,
        \<lparr>pname = ''name'', annotation = Plain (OtherT ''tuple[str, CommandCategory]''), pdefault = None\<rparr>,
        \<lparr>pname = ''label'', annotation = Plain StrT, pdefault = None\<rparr>],
      doc = Some doc_851\<rparr>"

definition doc_868 :: string where
  "doc_868 =
     utf8 [10] @ ''        {command} category (''
     @ utf8 [227, 130, 171, 227, 131, 134, 227, 130, 180, 227, 131, 170]
     @ '') addCommand (''
     @ utf8 [227, 130, 179, 227, 131, 158, 227, 131, 179, 227, 131, 137] @ ''...)''
     @ utf8 [10, 10] @ ''        ''
     @ utf8 [227, 130, 171, 227, 131, 134, 227, 130, 180, 227, 131, 170, 227, 129, 171,
     227, 130, 179, 227, 131, 158, 227, 131, 179, 227, 131, 137, 227, 130, 146, 232, 191,
     189, 229, 138, 160, 227, 129, 151, 227, 129, 190, 227, 129, 153, 10] @ ''        ''"

definition handler_868 :: pyfunction where
  "handler_868 =
     \<lparr>lineno = 868,
      parameters =
       [\<lparr>pname = ''self'', annotation = Plain (OtherT ''inspect._empty''), pdefault = None\<rparr>,
        \<lparr>pname = ''ctx'', annotation = Plain (OtherT ''CommandContext''), pdefault = None\<rparr>,
        \<lparr>pname = ''name'', annotation = Plain (OtherT ''tuple[str, CommandCategory]''), pdefault = None\<rparr>,
        \<lparr>pname = ''command'', annotation = Plain (OtherT ''tuple[str, CommandEntry]''), pdefault = None\<rparr>],
      doc = Some doc_868\<rparr>"

definition doc_891 :: string where
  "doc_891 =
     utf8 [10] @ ''        {command} category (''
     @ utf8 [227, 130, 171, 227, 131, 134, 227, 130, 180, 227, 131, 170]
     @ '') removeCommand (''
     @ utf8 [227, 130, 179, 227, 131, 158, 227, 131, 179, 227, 131, 137] @ '')''
     @ utf8 [10, 10] @ ''        ''
     @ utf8 [227, 130, 171, 227, 131, 134, 227, 130, 180, 227, 131, 170, 227, 129, 139,
     227, 130, 137, 227, 130, 179, 227, 131, 158, 227, 131, 179, 227, 131, 137, 227, 130,
     146, 229, 137, 138, 233, 153, 164, 227, 129, 151, 227, 128, 129, 227, 129, 157, 227,
     129, 174, 228, 187, 150, 227, 130, 171, 227, 131, 134, 227, 130, 180, 227, 131, 170,
     227, 129, 171, 231, 167, 187, 229, 139, 149, 227, 129, 151, 227, 129, 190, 227, 129,
     153, 10] @ ''        ''"

definition handler_891 :: pyfunction where
  "handler_891 =
     \<lparr>lineno = 891,
      parameters =
       [\<lparr>pname = ''self'', annotation = Plain (OtherT ''inspect._empty''), pdefault = None\<rparr>,
        \<lparr>pname = ''ctx'', annotation = Plain (OtherT ''CommandContext''), pdefault = None\<rparr>,
        \<lparr>pname = ''name'', annotation = Plain (OtherT ''tuple[str, CommandCategory]''), pdefault = None\<rparr>,
        \<lparr>pname = ''command'', annotation = Plain StrT, pdefault = None\<rparr>],
      doc = Some doc_891\<rparr>"

definition decorated :: "(nat \<times> arg list \<times> pyfunction) list" where
  "decorated =
     [(171, [Literal ''listCommands''], handler_172),
      (203, [Literal ''addCommand'', Type (Plain StrT), Type (Union [StrT, NoneT]), Type (Union [StrT, NoneT])], handler_204),
      (232, [Literal ''removeCommand'', Parser CommandEntryArgument], handler_233),
      (255, [Literal ''command'', Parser CommandEntryArgument], handler_256),
      (271, [Literal ''command'', Parser CommandEntryArgument, Literal ''info''], handler_272),
      (287, [Literal ''command'', Parser CommandEntryArgument, Literal ''setHandler'', Parser HandlerArgument], handler_288),
      (299, [Literal ''command'', Parser CommandEntryArgument, Literal ''addAlias'', Type (Plain ListStrT)], handler_300),
      (327, [Literal ''command'', Parser CommandEntryArgument, Literal ''removeAlias'', Type (Plain ListStrT)], handler_328),
      (352, [Literal ''command'', Parser CommandEntryArgument, Literal ''setUsage'', Type (Plain StrT)], handler_353),
      (369, [Literal ''command'', Parser CommandEntryArgument, Literal ''resetUsage''], handler_370),
      (386, [Literal ''command'', Parser CommandEntryArgument, Literal ''setCategory'', Parser CategoryArgument], handler_387),
      (409, [Literal ''command'', Parser CommandEntryArgument, Literal ''resetCategory''], handler_410),
      (430, [Literal ''command'', Parser CommandEntryArgument, Literal ''test'', Type (Plain StrT)], handler_431),
      (460, [Literal ''listGroups''], handler_461),
      (487, [Literal ''createGroup'', Type (Plain StrT), Type (Union [ListStrT, NoneT])], handler_488),
      (509, [Literal ''deleteGroup'', Parser GroupArgument], handler_510),
      (523, [Literal ''group'', Parser GroupArgument], handler_524),
      (546, [Literal ''group'', Parser GroupArgument, Literal ''info''], handler_547),
      (569, [Literal ''group'', Parser GroupArgument, Literal ''addCommand'', Parser CommandEntryArgument], handler_570),
      (591, [Literal ''group'', Parser GroupArgument, Literal ''removeCommand'', Parser CommandEntryArgument], handler_592),
      (613, [Literal ''group'', Parser GroupArgument, Literal ''addUser'', Type (Plain StrT)], handler_614),
      (641, [Literal ''group'', Parser GroupArgument, Literal ''removeUser'', Type (Plain StrT)], handler_642),
      (669, [Literal ''group'', Parser GroupArgument, Literal ''addRole'', Type (Plain StrT)], handler_670),
      (693, [Literal ''group'', Parser GroupArgument, Literal ''removeRole'', Type (Plain StrT)], handler_694),
      (717, [Literal ''listCategories''], handle_718),
      (742, [Literal ''addCategory'', Type (Plain StrT), Type (Union [StrT, NoneT]), Type (Union [ListStrT, NoneT])], handler_743),
      (774, [Literal ''removeCategory'', Parser CategoryArgument], handler_775),
      (796, [Literal ''category'', Parser CategoryArgument], handler_797),
      (810, [Literal ''category'', Parser CategoryArgument, Literal ''info''], handler_811),
      (824, [Literal ''category'', Parser CategoryArgument, Literal ''move'', Type (Plain StrT)], handler_825),
      (850, [Literal ''category'', Parser CategoryArgument, Literal ''setLabel'', Type (Plain StrT)], handler_851),
      (867, [Literal ''category'', Parser CategoryArgument, Literal ''addCommand'', Parser CommandEntryArgument], handler_868),
      (890, [Literal ''category'', Parser CategoryArgument, Literal ''removeCommand'', Type (Plain StrT)], handler_891)]"

text \<open>\<open>Handler.handlers\<close> once the module is loaded.\<close>

definition Handler_handlers :: "Handler list" where
  "Handler_handlers = fold (\<lambda>(i, as, func). Handler_call i as func) decorated []"

section \<open>The command entry point: \<open>CommandConfiguratorPlugin.cmd_cconf\<close>\<close>

text \<open>
  What \<open>cmd_cconf\<close> reads of the command context. \<open>get_command\<close> above takes
  \<open>ctx.arguments\<close> as its input.
\<close>

record CommandContext =
  ctx_arguments :: "string list"
  ctx_prefix :: string
  ctx_execute_name :: string

text \<open>
  \<open>ctx.arguments.get(default=...)\<close> is a method of the host framework: the first token, or
  the default when there is none.
\<close>

definition arguments_get :: "string list \<Rightarrow> string \<Rightarrow> string" where
  "arguments_get arguments dflt = (case arguments of [] \<Rightarrow> dflt | arg # rest \<Rightarrow> arg)"

text \<open>
  \<open>list_all\<close> (named \<open>list_all_text\<close> here): the text of the listing after \<open>textwrap.dedent\<close>, with \<open>prefix + label\<close> in the
  place of every \<open>{cmd}\<close>.
\<close>

definition list_all_text :: "string \<Rightarrow> string \<Rightarrow> string" where
  "list_all_text pfx label =
     (let cmd = pfx @ label in
      utf8 [10, 227, 130, 179, 227, 131, 158, 227, 131, 179, 227, 131, 137, 232, 168, 173,
      229, 174, 154, 10] @ ''> '' @ cmd @ '' listcommands'' @ utf8 [10] @ ''> '' @ cmd
      @ '' addcommand (name) [handlerId] [category]'' @ utf8 [10] @ ''> '' @ cmd
      @ '' removecommand (name)'' @ utf8 [10] @ ''> '' @ cmd @ '' command (name) info''
      @ utf8 [10] @ ''> '' @ cmd @ '' command (name) sethandler (handlerId)'' @ utf8 [10]
      @ ''> '' @ cmd @ '' command (name) addalias (alias...)'' @ utf8 [10] @ ''> '' @ cmd
      @ '' command (name) removealias (alias...)'' @ utf8 [10] @ ''> '' @ cmd
      @ '' command (name) setusage (usageText)'' @ utf8 [10] @ ''> '' @ cmd
      @ '' command (name) resetusage'' @ utf8 [10] @ ''> '' @ cmd
      @ '' command (name) setcategory (category)'' @ utf8 [10] @ ''> '' @ cmd
      @ '' command (name) resetcategory'' @ utf8 [10] @ ''> '' @ cmd
      @ '' command (name) test (user)''
      @ utf8 [10, 10, 232, 168, 177, 229, 143, 175, 227, 130, 176, 227, 131, 171, 227, 131,
      188, 227, 131, 151, 232, 168, 173, 229, 174, 154, 10] @ ''> '' @ cmd @ '' listgroups''
      @ utf8 [10] @ ''> '' @ cmd @ '' creategroup (name) [commands...]'' @ utf8 [10]
      @ ''> '' @ cmd @ '' deletegroup (name)'' @ utf8 [10] @ ''> '' @ cmd
      @ '' group (name) info'' @ utf8 [10] @ ''> '' @ cmd
      @ '' group (name) addcommand (command)'' @ utf8 [10] @ ''> '' @ cmd
      @ '' group (name) removecommand (command)'' @ utf8 [10] @ ''> '' @ cmd
      @ '' group (name) adduser (userId)'' @ utf8 [10] @ ''> '' @ cmd
      @ '' group (name) removeuser (userId)'' @ utf8 [10] @ ''> '' @ cmd
      @ '' group (name) addrole (roleId)'' @ utf8 [10] @ ''> '' @ cmd
      @ '' group (name) removerole (roleId)''
      @ utf8 [10, 10, 227, 130, 171, 227, 131, 134, 227, 130, 180, 227, 131, 170, 232, 168,
      173, 229, 174, 154, 10] @ ''> '' @ cmd @ '' listcategories'' @ utf8 [10] @ ''> ''
      @ cmd @ '' addcategory (name) [label] [commands...]'' @ utf8 [10] @ ''> '' @ cmd
      @ '' removecategory (name)'' @ utf8 [10] @ ''> '' @ cmd @ '' category (name) info''
      @ utf8 [10] @ ''> '' @ cmd @ '' category (name) move (number)'' @ utf8 [10] @ ''> ''
      @ cmd @ '' category (name) setlabel (label)'' @ utf8 [10] @ ''> '' @ cmd
      @ '' category (name) addcommand (command)'' @ utf8 [10] @ ''> '' @ cmd
      @ '' category (name) removecommand (command)'' @ utf8 [10])"

definition help_title :: string where
  "help_title =
     '':jigsaw: Command Configurator - ''
     @ utf8 [230, 147, 141, 228, 189, 156, 228, 184, 128, 232, 166, 167] @ '' :jigsaw:''"

datatype Embed = Embed string string

text \<open>
  What the entry point does in the end: it sends an embed or a warning, shows the usage of
  a command, raises \<open>CommandUsageError\<close>, or awaits the resolved function with its keyword
  arguments.
\<close>

datatype outcome =
    SendInfo Embed
  | SendWarn string
  | SendCommandUsage string
  | RaiseCommandUsageError
  | Await pyfunction "string \<rightharpoonup> py_value"

text \<open>
  The \<open>try\<close> around \<open>get_command\<close> and the call that follows. \<open>dedent\<close> stands for
  \<open>textwrap.dedent\<close>.
\<close>

definition after_get_command ::
  "(string \<Rightarrow> string) \<Rightarrow> error + (pyfunction \<times> (string \<rightharpoonup> py_value)) \<Rightarrow> outcome"
where
  "after_get_command dedent r =
     (case r of
        Inl (CommandMessageError message) \<Rightarrow> SendWarn message
      | Inl (CommandInfoError command) \<Rightarrow>
          (case docs command of
             None \<Rightarrow> RaiseCommandUsageError
           | Some d \<Rightarrow> if d \<noteq> [] then SendCommandUsage (dedent d) else RaiseCommandUsageError)
      | Inl CommandNotFoundError \<Rightarrow> RaiseCommandUsageError
      | Inr (command, kwargs) \<Rightarrow> Await command kwargs)"

definition cmd_cconf ::
  "(string \<Rightarrow> string) \<Rightarrow> (string \<Rightarrow> string) \<Rightarrow> CommandManager \<Rightarrow> Handler list \<Rightarrow> CommandContext \<Rightarrow> outcome"
where
  "cmd_cconf ucd dedent mgr handlers ctx =
     (if arguments_get (ctx_arguments ctx) [] = ''help''
      then SendInfo (Embed help_title (list_all_text (ctx_prefix ctx) (ctx_execute_name ctx)))
      else after_get_command dedent (get_command ucd mgr handlers (ctx_arguments ctx)))"

section \<open>Notions used to state the properties\<close>

text \<open>
  \<open>keeps idx arg cmd\<close>: candidate \<open>cmd\<close> stays in \<open>handlers\<close> at token \<open>arg\<close> of index \<open>idx\<close>;
  \<open>survives idx toks cmd\<close>: it stays through the tokens \<open>toks\<close>, the first at index \<open>idx\<close>.
\<close>

definition keeps :: "(string \<Rightarrow> string) \<Rightarrow> nat \<Rightarrow> string \<Rightarrow> Handler \<Rightarrow> bool" where
  "keeps ucd idx arg cmd =
     (if length (args cmd) \<le> idx then ignore_args_size cmd
      else (case first_only (args cmd ! idx) of Literal s \<Rightarrow> lower ucd s = lower ucd arg | _ \<Rightarrow> True))"

fun survives :: "(string \<Rightarrow> string) \<Rightarrow> nat \<Rightarrow> string list \<Rightarrow> Handler \<Rightarrow> bool" where
  "survives ucd idx [] cmd = True"
| "survives ucd idx (arg # rest) cmd = (keeps ucd idx arg cmd \<and> survives ucd (Suc idx) rest cmd)"

definition emits :: "(string \<Rightarrow> string) \<Rightarrow> CommandManager \<Rightarrow> string list \<Rightarrow> nat \<Rightarrow> string \<Rightarrow> Handler \<Rightarrow> py_value list" where
  "emits ucd mgr arguments idx arg cmd =
     (if length (args cmd) \<le> idx then []
      else (case first_only (args cmd ! idx) of
              Literal s \<Rightarrow> []
            | Parser p \<Rightarrow> (case parse ucd mgr p arg of Inl m \<Rightarrow> [] | Inr v \<Rightarrow> [v])
            | Type t \<Rightarrow> if t = Plain StrT then [Str arg]
                         else if t = Plain ListT \<or> t = Plain ListStrT then [StrList (drop idx arguments)]
                         else []))"

fun collected :: "(string \<Rightarrow> string) \<Rightarrow> CommandManager \<Rightarrow> string list \<Rightarrow> nat \<Rightarrow> string list \<Rightarrow> Handler \<Rightarrow> py_value list" where
  "collected ucd mgr arguments idx [] cmd = []"
| "collected ucd mgr arguments idx (arg # rest) cmd =
     emits ucd mgr arguments idx arg cmd @ collected ucd mgr arguments (Suc idx) rest cmd"

text \<open>The candidates that pass the arity check and those it removes, in order.\<close>

definition arity_survivors :: "nat \<Rightarrow> Handler list \<Rightarrow> Handler list" where
  "arity_survivors n live = filter (\<lambda>c. \<not> missing_required (drop n (args c))) live"

definition arity_eliminated :: "nat \<Rightarrow> Handler list \<Rightarrow> Handler list" where
  "arity_eliminated n live = filter (\<lambda>c. missing_required (drop n (args c))) live"

text \<open>The candidate list after the scan; empty when a parser ended the call.\<close>

definition live_after_scan :: "(string \<Rightarrow> string) \<Rightarrow> CommandManager \<Rightarrow> Handler list \<Rightarrow> string list \<Rightarrow> Handler list" where
  "live_after_scan ucd mgr hs arguments =
     (case scan_args ucd mgr arguments 0 arguments (hs, \<lambda>hdl. []) of
        Inl e \<Rightarrow> []
      | Inr (live, as) \<Rightarrow> live)"

text \<open>
  \<open>fails mgr idx arg cmd\<close>: the message of the \<open>CommandMessageError\<close> that the parser of \<open>cmd\<close>
  at index \<open>idx\<close> raises on \<open>arg\<close>, if \<open>cmd\<close> has a parser there and it fails.
  \<open>first_fail\<close>: the first such message among the candidates, in order.
\<close>

definition fails :: "(string \<Rightarrow> string) \<Rightarrow> CommandManager \<Rightarrow> nat \<Rightarrow> string \<Rightarrow> Handler \<Rightarrow> string option" where
  "fails ucd mgr idx arg cmd =
     (if length (args cmd) \<le> idx then None
      else (case first_only (args cmd ! idx) of
              Parser p \<Rightarrow> (case parse ucd mgr p arg of Inl message \<Rightarrow> Some message | Inr v \<Rightarrow> None)
            | _ \<Rightarrow> None))"

fun first_fail :: "(string \<Rightarrow> string) \<Rightarrow> CommandManager \<Rightarrow> nat \<Rightarrow> string \<Rightarrow> Handler list \<Rightarrow> string option" where
  "first_fail ucd mgr idx arg [] = None"
| "first_fail ucd mgr idx arg (cmd # cmds) =
     (case fails ucd mgr idx arg cmd of
        Some message \<Rightarrow> Some message
      | None \<Rightarrow> first_fail ucd mgr idx arg cmds)"

text \<open>
  The scan without its bookkeeping: token by token, the first parser failure among the
  candidates still there ends it; otherwise the candidates that the token keeps go on.
\<close>

fun scan_spec :: "(string \<Rightarrow> string) \<Rightarrow> CommandManager \<Rightarrow> nat \<Rightarrow> string list \<Rightarrow> Handler list \<Rightarrow> string + Handler list" where
  "scan_spec ucd mgr idx [] hs = Inr hs"
| "scan_spec ucd mgr idx (arg # rest) hs =
     (case first_fail ucd mgr idx arg hs of
        Some message \<Rightarrow> Inl message
      | None \<Rightarrow> scan_spec ucd mgr (Suc idx) rest (filter (keeps ucd idx arg) hs))"

text \<open>
  The choice of \<open>get_command\<close> stated on these notions: the first candidate that passes the
  arity check, with the values collected for it.
\<close>

definition select_spec ::
  "(string \<Rightarrow> string) \<Rightarrow> CommandManager \<Rightarrow> Handler list \<Rightarrow> string list \<Rightarrow> error + (Handler \<times> py_value list)"
where
  "select_spec ucd mgr hs arguments =
     (if arguments = [] then Inl CommandNotFoundError
      else
        (case scan_spec ucd mgr 0 arguments hs of
           Inl message \<Rightarrow> Inl (CommandMessageError message)
         | Inr live \<Rightarrow>
             (case arity_survivors (length arguments) live of
                w # ws \<Rightarrow> Inr (w, collected ucd mgr arguments 0 arguments w)
              | [] \<Rightarrow>
                  (case arity_eliminated (length arguments) live of
                     [s] \<Rightarrow> Inl (CommandInfoError s)
                   | _ \<Rightarrow> Inl CommandNotFoundError))))"

text \<open>A registry of two handlers with the same pattern up to letter case.\<close>

definition twins :: "Handler list" where
  "twins =
     Handler_call 2 [Literal ''listCommands''] handler_461
       (Handler_call 1 [Literal ''listcommands''] handler_172 [])"

text \<open>An example configuration of the host framework.\<close>

definition example_mgr :: CommandManager where
  "example_mgr =
     \<lparr>config_categories = [(''general'', \<lparr>category_id = 1, commands = [''ping'' \<mapsto> 10]\<rparr>)],
      mgr_handlers = [''pinger'' \<mapsto> 20],
      config_groups = [''defaults'' \<mapsto> 30]\<rparr>"

text \<open>
  A registry of two handlers with the same keyword: the first takes a command entry, the
  second any string.
\<close>

definition rivals :: "Handler list" where
  "rivals =
     Handler_call 2 [Literal ''command'', Type (Plain StrT)] handler_353
       (Handler_call 1 [Literal ''command'', Parser CommandEntryArgument] handler_256 [])"



text \<open>A registry whose only handler has the keyword \<open>help\<close>.\<close>

definition help_registry :: "Handler list" where
  "help_registry = Handler_call 1 [Literal ''help''] handler_172 []"

text \<open>
  \<open>set_list\<close> writes one list object; \<open>only_at a s s'\<close>: the stores differ at most in the list
  at \<open>a\<close>; \<open>with_list\<close> pairs the result of a scan on the store with the list it leaves at
  \<open>a\<close>.
\<close>

definition set_list :: "addr \<Rightarrow> Handler list \<Rightarrow> store \<Rightarrow> store" where
  "set_list a hs s = s\<lparr>list_objs := (list_objs s)(a := hs)\<rparr>"

definition with_list :: "addr \<Rightarrow> (error + (Handler \<Rightarrow> py_value list)) \<times> store \<Rightarrow> error + scan_state" where
  "with_list a r = (case r of (Inl e, s) \<Rightarrow> Inl e | (Inr as, s) \<Rightarrow> Inr (list_objs s a, as))"

definition only_at :: "addr \<Rightarrow> store \<Rightarrow> store \<Rightarrow> bool" where
  "only_at a s s' \<longleftrightarrow> (\<exists>hs. s' = set_list a hs s)"

text \<open>A store whose object 0 is the list \<open>twins\<close>.\<close>

definition example_store :: store where
  "example_store = \<lparr>list_objs = (\<lambda>a. [])(0 := twins), next_addr = 1\<rparr>"

text \<open>
  A token sequence that exactly matches a pattern, as the specification and the usage
  texts of the handlers describe it: one token for each pattern element, a literal element
  being the token up to letter case and a parser element parsing it. Trailing elements
  may have no token when they are all unions with \<open>None\<close>. A final list element takes its
  token and all that follow, also when it is a union with \<open>None\<close> (\<open>list[str] | None\<close>, written
  \<open>[commands...]\<close> in the usage texts).
\<close>

fun matches :: "(string \<Rightarrow> string) \<Rightarrow> CommandManager \<Rightarrow> arg list \<Rightarrow> string list \<Rightarrow> bool" where
  "matches ucd mgr [] [] = True"
| "matches ucd mgr [] (tok # toks) = False"
| "matches ucd mgr (typ # typs) [] = list_all is_optional (typ # typs)"
| "matches ucd mgr (typ # typs) (tok # toks) =
     (if typs = [] \<and> is_list (first_only typ) then True
      else (case first_only typ of
              Literal s \<Rightarrow> lower ucd tok = lower ucd s
            | Parser p \<Rightarrow> \<not> isl (parse ucd mgr p tok)
            | Type t \<Rightarrow> True)
           \<and> matches ucd mgr typs toks)"

text \<open>
  The values that binding gives to \<open>n\<close> declared parameters from the collected values \<open>vs\<close>
  when the parameters left over are nullable, and what it is for \<open>get_command\<close> to resolve
  the input to \<open>cmd\<close> with its declared parameters bound to them.
\<close>

definition bound_values :: "nat \<Rightarrow> py_value list \<Rightarrow> py_value option list" where
  "bound_values n vs = map Some vs @ replicate (n - length vs) (Some NoneV)"

definition resolves_to :: "(string \<Rightarrow> string) \<Rightarrow> CommandManager \<Rightarrow> Handler list \<Rightarrow> Handler \<Rightarrow> string list \<Rightarrow> bool" where
  "resolves_to ucd mgr hs cmd arguments \<longleftrightarrow>
     (\<exists>kwargs. get_command ucd mgr hs arguments = Inr (handler cmd, kwargs)
        \<and> map kwargs (map pname (drop 2 (parameters (handler cmd))))
            = bound_values (length (drop 2 (parameters (handler cmd))))
                (collected ucd mgr arguments 0 arguments cmd))"

section \<open>Evaluation of \<open>lower\<close>\<close>

lemma lower_char_shift:
  assumes "(of_char d :: nat) = of_char c + 32" and "65 \<le> (of_char c :: nat)" and "(of_char c :: nat) \<le> 90"
  shows "lower_char c = d"
proof -
  have "char_of (of_char c + 32 :: nat) = char_of (of_char d :: nat)" using assms(1) by simp
  then show ?thesis using assms(2,3) by (simp add: lower_char_def Let_def)
qed

lemma lower_char_upper:
  "lower_char CHR ''A'' = CHR ''a''" "lower_char CHR ''B'' = CHR ''b''" "lower_char CHR ''C'' = CHR ''c''"
  "lower_char CHR ''D'' = CHR ''d''" "lower_char CHR ''E'' = CHR ''e''" "lower_char CHR ''F'' = CHR ''f''"
  "lower_char CHR ''G'' = CHR ''g''" "lower_char CHR ''H'' = CHR ''h''" "lower_char CHR ''I'' = CHR ''i''"
  "lower_char CHR ''J'' = CHR ''j''" "lower_char CHR ''K'' = CHR ''k''" "lower_char CHR ''L'' = CHR ''l''"
  "lower_char CHR ''M'' = CHR ''m''" "lower_char CHR ''N'' = CHR ''n''" "lower_char CHR ''O'' = CHR ''o''"
  "lower_char CHR ''P'' = CHR ''p''" "lower_char CHR ''Q'' = CHR ''q''" "lower_char CHR ''R'' = CHR ''r''"
  "lower_char CHR ''S'' = CHR ''s''" "lower_char CHR ''T'' = CHR ''t''" "lower_char CHR ''U'' = CHR ''u''"
  "lower_char CHR ''V'' = CHR ''v''" "lower_char CHR ''W'' = CHR ''w''" "lower_char CHR ''X'' = CHR ''x''"
  "lower_char CHR ''Y'' = CHR ''y''" "lower_char CHR ''Z'' = CHR ''z''"
  by (rule lower_char_shift; simp)+

lemma lower_char_lowercase:
  "lower_char CHR ''a'' = CHR ''a''" "lower_char CHR ''b'' = CHR ''b''" "lower_char CHR ''c'' = CHR ''c''" "lower_char CHR ''d'' = CHR ''d''" "lower_char CHR ''e'' = CHR ''e''" "lower_char CHR ''f'' = CHR ''f''" "lower_char CHR ''g'' = CHR ''g''" "lower_char CHR ''h'' = CHR ''h''" "lower_char CHR ''i'' = CHR ''i''" "lower_char CHR ''j'' = CHR ''j''" "lower_char CHR ''k'' = CHR ''k''" "lower_char CHR ''l'' = CHR ''l''" "lower_char CHR ''m'' = CHR ''m''" "lower_char CHR ''n'' = CHR ''n''" "lower_char CHR ''o'' = CHR ''o''" "lower_char CHR ''p'' = CHR ''p''" "lower_char CHR ''q'' = CHR ''q''" "lower_char CHR ''r'' = CHR ''r''" "lower_char CHR ''s'' = CHR ''s''" "lower_char CHR ''t'' = CHR ''t''" "lower_char CHR ''u'' = CHR ''u''" "lower_char CHR ''v'' = CHR ''v''" "lower_char CHR ''w'' = CHR ''w''" "lower_char CHR ''x'' = CHR ''x''" "lower_char CHR ''y'' = CHR ''y''" "lower_char CHR ''z'' = CHR ''z''"
  by (simp_all add: lower_char_def Let_def)

lemma ascii_char: "((of_char c :: nat) < 128) = (\<not> digit7 c)"
  by (cases c) (simp add: of_char_Char)

lemma is_ascii_simps: "is_ascii [] = True" "is_ascii (c # cs) = (\<not> digit7 c \<and> is_ascii cs)"
  by (simp_all add: is_ascii_def ascii_char)

lemma lower_ascii: "is_ascii s \<Longrightarrow> lower ucd s = map lower_char s"
  by (simp add: lower_def)

lemmas lower_eval = lower_def is_ascii_simps lower_char_upper lower_char_lowercase

lemma lower_words:
  "lower ucd ''listCommands'' = ''listcommands''" "lower ucd ''addCommand'' = ''addcommand''"
  "lower ucd ''removeCommand'' = ''removecommand''" "lower ucd ''command'' = ''command''"
  "lower ucd ''info'' = ''info''" "lower ucd ''setHandler'' = ''sethandler''"
  "lower ucd ''addAlias'' = ''addalias''" "lower ucd ''removeAlias'' = ''removealias''"
  "lower ucd ''setUsage'' = ''setusage''" "lower ucd ''resetUsage'' = ''resetusage''"
  "lower ucd ''setCategory'' = ''setcategory''"
  "lower ucd ''resetCategory'' = ''resetcategory''" "lower ucd ''test'' = ''test''"
  "lower ucd ''listGroups'' = ''listgroups''" "lower ucd ''createGroup'' = ''creategroup''"
  "lower ucd ''deleteGroup'' = ''deletegroup''" "lower ucd ''group'' = ''group''"
  "lower ucd ''addUser'' = ''adduser''" "lower ucd ''removeUser'' = ''removeuser''"
  "lower ucd ''addRole'' = ''addrole''" "lower ucd ''removeRole'' = ''removerole''"
  "lower ucd ''listCategories'' = ''listcategories''"
  "lower ucd ''addCategory'' = ''addcategory''"
  "lower ucd ''removeCategory'' = ''removecategory''" "lower ucd ''category'' = ''category''"
  "lower ucd ''move'' = ''move''" "lower ucd ''setLabel'' = ''setlabel''"
  "lower ucd ''ping'' = ''ping''" "lower ucd ''pinger'' = ''pinger''"
  "lower ucd ''defaults'' = ''defaults''" "lower ucd ''general'' = ''general''"
  "lower ucd ''p'' = ''p''" "lower ucd ''pp'' = ''pp''" "lower ucd ''now'' = ''now''"
  "lower ucd ''LISTCOMMANDS'' = ''listcommands''"
  "lower ucd ''listcommands'' = ''listcommands''"
  "lower ucd ''doesnotexist'' = ''doesnotexist''" "lower ucd ''HELP'' = ''help''"
  "lower ucd ''help'' = ''help''" "lower ucd ''g'' = ''g''" "lower ucd ''a'' = ''a''"
  "lower ucd ''b'' = ''b''" "lower ucd ''x'' = ''x''"
  "lower ucd ''ADDCOMMAND'' = ''addcommand''"
  by (simp_all add: lower_eval)

lemmas eval_defs = Handler_handlers_def decorated_def Handler_call_def select_command_def
  scan_cmd_def ignore_args_size_def is_list_def lower_words
  CommandEntryArgument_parse_def HandlerArgument_parse_def GroupArgument_parse_def
  CategoryArgument_parse_def example_mgr_def get_command_def get_handler_params_def

lemmas spec_defs = Handler_handlers_def decorated_def Handler_call_def select_spec_def
  keeps_def fails_def emits_def arity_survivors_def arity_eliminated_def
  ignore_args_size_def is_list_def lower_words
  CommandEntryArgument_parse_def HandlerArgument_parse_def GroupArgument_parse_def
  CategoryArgument_parse_def example_mgr_def get_command_def get_handler_params_def


section \<open>The scan, candidate by candidate\<close>

lemma scan_cmd_Inr:
  assumes "scan_cmd ucd mgr arguments idx arg cmd (hs, as) = Inr (hs', as')"
  shows "hs' = (if keeps ucd idx arg cmd then hs else remove1 cmd hs)"
    and "as' = as(cmd := as cmd @ emits ucd mgr arguments idx arg cmd)"
  using assms
  by (auto simp: scan_cmd_def keeps_def emits_def split: if_splits arg.splits sum.splits)

lemma scan_cmds_handlers:
  assumes "scan_cmds ucd mgr arguments idx arg cs (pre @ cs, as) = Inr (hs', as')"
    and "\<forall>c\<in>set pre. keeps ucd idx arg c"
  shows "hs' = pre @ filter (keeps ucd idx arg) cs"
  using assms
proof (induction cs arbitrary: pre as)
  case Nil
  then show ?case by simp
next
  case (Cons cmd cs)
  from Cons.prems(1) obtain h1 a1 where
    step: "scan_cmd ucd mgr arguments idx arg cmd (pre @ cmd # cs, as) = Inr (h1, a1)"
    and rest: "scan_cmds ucd mgr arguments idx arg cs (h1, a1) = Inr (hs', as')"
    by (auto split: sum.splits)
  show ?case
  proof (cases "keeps ucd idx arg cmd")
    case True
    with scan_cmd_Inr(1)[OF step] have "h1 = (pre @ [cmd]) @ cs" by simp
    with rest Cons.IH[of "pre @ [cmd]" a1] Cons.prems(2) True show ?thesis by simp
  next
    case False
    with Cons.prems(2) have "cmd \<notin> set pre" by auto
    with scan_cmd_Inr(1)[OF step] False have "h1 = pre @ cs" by (simp add: remove1_append)
    with rest Cons.IH[of pre a1] Cons.prems(2) False show ?thesis by simp
  qed
qed

lemma scan_cmds_args:
  assumes "scan_cmds ucd mgr arguments idx arg cs (hs, as) = Inr (hs', as')"
    and "distinct cs"
  shows "as' c = (if c \<in> set cs then as c @ emits ucd mgr arguments idx arg c else as c)"
  using assms
proof (induction cs arbitrary: hs as)
  case Nil
  then show ?case by simp
next
  case (Cons cmd cs)
  from Cons.prems(1) obtain h1 a1 where
    step: "scan_cmd ucd mgr arguments idx arg cmd (hs, as) = Inr (h1, a1)"
    and rest: "scan_cmds ucd mgr arguments idx arg cs (h1, a1) = Inr (hs', as')"
    by (auto split: sum.splits)
  from Cons.IH[OF rest] Cons.prems(2)
  have "as' c = (if c \<in> set cs then a1 c @ emits ucd mgr arguments idx arg c else a1 c)" by simp
  with scan_cmd_Inr(2)[OF step] Cons.prems(2) show ?case by auto
qed

lemma scan_args_handlers:
  assumes "scan_args ucd mgr arguments idx toks (hs, as) = Inr (hs', as')"
  shows "hs' = filter (survives ucd idx toks) hs"
  using assms
proof (induction toks arbitrary: idx hs as)
  case Nil
  then show ?case by simp
next
  case (Cons arg rest)
  from Cons.prems obtain h1 a1 where
    step: "scan_cmds ucd mgr arguments idx arg hs (hs, as) = Inr (h1, a1)"
    and more: "scan_args ucd mgr arguments (Suc idx) rest (h1, a1) = Inr (hs', as')"
    by (auto split: sum.splits)
  from scan_cmds_handlers[of ucd mgr arguments idx arg hs "[]" as h1 a1] step
  have "h1 = filter (keeps ucd idx arg) hs" by simp
  with Cons.IH[OF more] show ?case by simp
qed

lemma scan_args_collected:
  assumes "scan_args ucd mgr arguments idx toks (hs, as) = Inr (hs', as')"
    and "distinct hs" and "c \<in> set hs'"
  shows "as' c = as c @ collected ucd mgr arguments idx toks c"
  using assms
proof (induction toks arbitrary: idx hs as)
  case Nil
  then show ?case by simp
next
  case (Cons arg rest)
  from Cons.prems(1) obtain h1 a1 where
    step: "scan_cmds ucd mgr arguments idx arg hs (hs, as) = Inr (h1, a1)"
    and more: "scan_args ucd mgr arguments (Suc idx) rest (h1, a1) = Inr (hs', as')"
    by (auto split: sum.splits)
  from scan_cmds_handlers[of ucd mgr arguments idx arg hs "[]" as h1 a1] step
  have h1: "h1 = filter (keeps ucd idx arg) hs" by simp
  with Cons.prems(2) have d1: "distinct h1" by simp
  from scan_args_handlers[OF more] Cons.prems(3) have "c \<in> set h1" by simp
  with h1 have "c \<in> set hs" by simp
  with scan_cmds_args[OF step Cons.prems(2), of c]
  have "a1 c = as c @ emits ucd mgr arguments idx arg c" by simp
  with Cons.IH[OF more d1 Cons.prems(3)] show ?case by simp
qed

lemma check_arity_eq:
  assumes "\<forall>c\<in>set pre. \<not> missing_required (drop n (args c))"
  shows "check_arity n cs (pre @ cs, errs) =
           (pre @ filter (\<lambda>c. \<not> missing_required (drop n (args c))) cs,
            errs @ filter (\<lambda>c. missing_required (drop n (args c))) cs)"
  using assms
proof (induction cs arbitrary: pre errs)
  case Nil
  then show ?case by simp
next
  case (Cons cmd cs)
  show ?case
  proof (cases "missing_required (drop n (args cmd))")
    case True
    with Cons.prems have "cmd \<notin> set pre" by auto
    then have "remove1 cmd (pre @ cmd # cs) = pre @ cs" by (simp add: remove1_append)
    with True Cons.IH[OF Cons.prems, of "errs @ [cmd]"] show ?thesis by simp
  next
    case False
    with Cons.prems have "\<forall>c\<in>set (pre @ [cmd]). \<not> missing_required (drop n (args c))" by simp
    from Cons.IH[OF this, of errs] False show ?thesis by simp
  qed
qed

lemma missing_required_iff: "missing_required typs \<longleftrightarrow> \<not> list_all is_optional typs"
  by (induction typs) auto

lemma survives_append:
  "survives ucd idx (xs @ ys) c \<longleftrightarrow> survives ucd idx xs c \<and> survives ucd (idx + length xs) ys c"
  by (induction xs arbitrary: idx) auto

lemma survives_nth:
  "survives ucd idx toks c \<longleftrightarrow> (\<forall>i<length toks. keeps ucd (idx + i) (toks ! i) c)"
proof (induction toks arbitrary: idx)
  case Nil
  then show ?case by simp
next
  case (Cons t toks)
  show ?case
  proof
    assume "survives ucd idx (t # toks) c"
    with Cons.IH[of "Suc idx"] have k: "keeps ucd idx t c" and r: "\<forall>i<length toks. keeps ucd (Suc idx + i) (toks ! i) c"
      by auto
    show "\<forall>i<length (t # toks). keeps ucd (idx + i) ((t # toks) ! i) c"
    proof (intro allI impI)
      fix i assume "i < length (t # toks)"
      then show "keeps ucd (idx + i) ((t # toks) ! i) c" using k r by (cases i) auto
    qed
  next
    assume a: "\<forall>i<length (t # toks). keeps ucd (idx + i) ((t # toks) ! i) c"
    then have "keeps ucd idx t c" by force
    moreover have "\<forall>i<length toks. keeps ucd (Suc idx + i) (toks ! i) c"
    proof (intro allI impI)
      fix i assume "i < length toks"
      with a have "keeps ucd (idx + Suc i) ((t # toks) ! Suc i) c" by (metis length_Cons Suc_less_eq)
      then show "keeps ucd (Suc idx + i) (toks ! i) c" by simp
    qed
    ultimately show "survives ucd idx (t # toks) c" using Cons.IH[of "Suc idx"] by simp
  qed
qed

lemma select_command_eq:
  assumes "scan_args ucd mgr arguments 0 arguments (hs, \<lambda>hdl. []) = Inr (live, as)"
  shows "select_command ucd mgr hs arguments =
           (if arguments = [] then Inl CommandNotFoundError
            else (case arity_survivors (length arguments) live of
                    w # ws \<Rightarrow> Inr (w, as w)
                  | [] \<Rightarrow> (case arity_eliminated (length arguments) live of
                             [s] \<Rightarrow> Inl (CommandInfoError s)
                           | _ \<Rightarrow> Inl CommandNotFoundError)))"
proof (cases "arguments = []")
  case True
  then show ?thesis by (simp add: select_command_def)
next
  case False
  have ca: "check_arity (length arguments) live (live, []) =
      (arity_survivors (length arguments) live, arity_eliminated (length arguments) live)"
    using check_arity_eq[of "[]" "length arguments" live "[]"]
    by (simp add: arity_survivors_def arity_eliminated_def)
  show ?thesis
  proof (cases "live = []")
    case True
    with False assms show ?thesis
      by (simp add: select_command_def arity_survivors_def arity_eliminated_def)
  next
    case nonempty: False
    show ?thesis
    proof (cases "arity_survivors (length arguments) live")
      case Nil
      with False nonempty assms ca show ?thesis
        by (cases "arity_eliminated (length arguments) live" rule: list.exhaust[case_names Nil Cons];
            cases "tl (arity_eliminated (length arguments) live)";
            simp add: select_command_def)
    next
      case (Cons w ws)
      with False nonempty assms ca show ?thesis by (simp add: select_command_def)
    qed
  qed
qed

lemma select_command_Inr:
  assumes "select_command ucd mgr hs arguments = Inr (c, vs)"
  shows "\<exists>live as ws. scan_args ucd mgr arguments 0 arguments (hs, \<lambda>hdl. []) = Inr (live, as)
           \<and> arity_survivors (length arguments) live = c # ws \<and> vs = as c \<and> arguments \<noteq> []"
proof (cases "scan_args ucd mgr arguments 0 arguments (hs, \<lambda>hdl. [])")
  case (Inl e)
  with assms show ?thesis by (simp add: select_command_def split: if_splits)
next
  case (Inr st)
  obtain live as where st: "st = (live, as)" by (cases st)
  from select_command_eq[of ucd mgr arguments hs live as] Inr st assms
  show ?thesis by (auto split: if_splits list.splits)
qed


section \<open>The scan as first failure and survivors\<close>

lemma scan_cmd_Inl_iff:
  "scan_cmd ucd mgr arguments idx arg cmd st = Inl e
     \<longleftrightarrow> (\<exists>message. fails ucd mgr idx arg cmd = Some message \<and> e = CommandMessageError message)"
  by (cases st) (auto simp: scan_cmd_def fails_def split: arg.splits sum.splits)

lemma scan_cmds_Inl_iff:
  "scan_cmds ucd mgr arguments idx arg cs st = Inl e
     \<longleftrightarrow> (\<exists>message. first_fail ucd mgr idx arg cs = Some message \<and> e = CommandMessageError message)"
proof (induction cs arbitrary: st)
  case Nil
  then show ?case by simp
next
  case (Cons cmd cs)
  show ?case
  proof (cases "scan_cmd ucd mgr arguments idx arg cmd st")
    case (Inl e')
    with scan_cmd_Inl_iff[of ucd mgr arguments idx arg cmd st e'] show ?thesis by auto
  next
    case (Inr st')
    have "fails ucd mgr idx arg cmd = None"
    proof (cases "fails ucd mgr idx arg cmd")
      case None then show ?thesis .
    next
      case (Some message)
      with scan_cmd_Inl_iff[of ucd mgr arguments idx arg cmd st "CommandMessageError message"] Inr
      show ?thesis by simp
    qed
    with Inr Cons.IH[of st'] show ?thesis by simp
  qed
qed

lemma scan_spec_Inr:
  assumes "scan_spec ucd mgr idx toks hs = Inr live"
  shows "live = filter (survives ucd idx toks) hs"
  using assms
proof (induction toks arbitrary: idx hs)
  case Nil
  then show ?case by simp
next
  case (Cons arg rest)
  from Cons.prems have "scan_spec ucd mgr (Suc idx) rest (filter (keeps ucd idx arg) hs) = Inr live"
    by (simp split: option.splits)
  from Cons.IH[OF this] have "live = filter (survives ucd (Suc idx) rest) (filter (keeps ucd idx arg) hs)" .
  also have "\<dots> = filter (\<lambda>c. keeps ucd idx arg c \<and> survives ucd (Suc idx) rest c) hs"
    by simp
  also have "\<dots> = filter (survives ucd idx (arg # rest)) hs"
    by (rule filter_cong) simp_all
  finally show ?case .
qed

lemma scan_args_spec:
  "(\<forall>message. scan_spec ucd mgr idx toks hs = Inl message
       \<longrightarrow> scan_args ucd mgr arguments idx toks (hs, as) = Inl (CommandMessageError message))
   \<and> (\<forall>live. scan_spec ucd mgr idx toks hs = Inr live
       \<longrightarrow> (\<exists>as'. scan_args ucd mgr arguments idx toks (hs, as) = Inr (live, as')))"
proof (induction toks arbitrary: idx hs as)
  case Nil
  then show ?case by simp
next
  case (Cons arg rest)
  show ?case
  proof (cases "first_fail ucd mgr idx arg hs")
    case (Some message)
    with scan_cmds_Inl_iff[of ucd mgr arguments idx arg hs "(hs, as)" "CommandMessageError message"]
    show ?thesis by simp
  next
    case None
    obtain h1 a1 where step: "scan_cmds ucd mgr arguments idx arg hs (hs, as) = Inr (h1, a1)"
      using scan_cmds_Inl_iff[of ucd mgr arguments idx arg hs "(hs, as)"] None
      by (cases "scan_cmds ucd mgr arguments idx arg hs (hs, as)") auto
    from scan_cmds_handlers[of ucd mgr arguments idx arg hs "[]" as h1 a1] step
    have "h1 = filter (keeps ucd idx arg) hs" by simp
    with step None Cons.IH[of "Suc idx" h1 a1] show ?thesis by simp
  qed
qed

lemma scan_args_Inl:
  assumes "scan_args ucd mgr arguments idx toks (hs, as) = Inl e"
  shows "\<exists>message. scan_spec ucd mgr idx toks hs = Inl message \<and> e = CommandMessageError message"
proof (cases "scan_spec ucd mgr idx toks hs")
  case (Inl message)
  with scan_args_spec[of ucd mgr idx toks hs arguments as] assms show ?thesis by simp
next
  case (Inr live)
  with scan_args_spec[of ucd mgr idx toks hs arguments as] assms show ?thesis by auto
qed

lemma select_command_spec:
  assumes "distinct hs"
  shows "select_command ucd mgr hs arguments = select_spec ucd mgr hs arguments"
proof (cases "arguments = []")
  case True
  then show ?thesis by (simp add: select_command_def select_spec_def)
next
  case False
  show ?thesis
  proof (cases "scan_spec ucd mgr 0 arguments hs")
    case (Inl message)
    with scan_args_spec[of ucd mgr 0 arguments hs arguments "\<lambda>hdl. []"] False
    show ?thesis by (simp add: select_command_def select_spec_def)
  next
    case (Inr live)
    with scan_args_spec[of ucd mgr 0 arguments hs arguments "\<lambda>hdl. []"] obtain as' where
      sc: "scan_args ucd mgr arguments 0 arguments (hs, \<lambda>hdl. []) = Inr (live, as')"
      by auto
    have "as' w = collected ucd mgr arguments 0 arguments w"
      if "arity_survivors (length arguments) live = w # ws" for w ws
    proof -
      from that have "w \<in> set live"
        by (metis arity_survivors_def filter_is_subset list.set_intros(1) subsetD)
      with scan_args_collected[OF sc assms] show ?thesis by simp
    qed
    with select_command_eq[OF sc] False Inr show ?thesis
      by (auto simp: select_spec_def split: list.splits)
  qed
qed

lemma distinct_Handler_handlers: "distinct Handler_handlers"
proof -
  have "distinct (map hid Handler_handlers)"
    by (simp add: Handler_handlers_def decorated_def Handler_call_def)
  then show ?thesis by (simp add: distinct_map)
qed

lemma scan_args_append:
  "scan_args ucd mgr arguments idx (xs @ ys) st =
     (case scan_args ucd mgr arguments idx xs st of
        Inl e \<Rightarrow> Inl e
      | Inr st' \<Rightarrow> scan_args ucd mgr arguments (idx + length xs) ys st')"
proof (induction xs arbitrary: idx st)
  case Nil
  then show ?case by simp
next
  case (Cons x xs)
  then show ?case by (simp split: sum.splits)
qed

lemma first_fail_append:
  "first_fail ucd mgr idx arg (xs @ ys) =
     (case first_fail ucd mgr idx arg xs of
        Some message \<Rightarrow> Some message
      | None \<Rightarrow> first_fail ucd mgr idx arg ys)"
  by (induction xs) (auto split: option.splits)

section \<open>Binding\<close>

lemma bind_parameters_Inl_iff:
  "bind_parameters ps vs kwargs = Inl e
     \<longleftrightarrow> list_ex (\<lambda>p. \<not> nullable (annotation p) \<and> pdefault p = None) (drop (length vs) ps)"
proof (induction ps arbitrary: vs kwargs)
  case Nil
  then show ?case by simp
next
  case (Cons p ps)
  show ?case
  proof (cases vs)
    case Nil
    with Cons.IH[of "[]"] show ?thesis by (cases e) (auto split: option.splits)
  next
    case (Cons v vs')
    with Cons.IH[of vs'] show ?thesis by simp
  qed
qed

lemma bind_parameters_other:
  assumes "bind_parameters ps vs kwargs = Inr kwargs'" and "x \<notin> pname ` set ps"
  shows "kwargs' x = kwargs x"
  using assms
proof (induction ps arbitrary: vs kwargs)
  case Nil
  then show ?case by simp
next
  case (Cons p ps)
  from Cons.prems(2) have x: "x \<noteq> pname p" "x \<notin> pname ` set ps" by auto
  show ?case
  proof (cases vs)
    case Nil
    with Cons.prems(1) obtain d where "bind_parameters ps [] (kwargs(pname p \<mapsto> d)) = Inr kwargs'"
      by (auto split: if_splits option.splits)
    from Cons.IH[OF this x(2)] x(1) show ?thesis by simp
  next
    case (Cons v vs')
    with Cons.prems(1) have "bind_parameters ps vs' (kwargs(pname p \<mapsto> v)) = Inr kwargs'" by simp
    from Cons.IH[OF this x(2)] x(1) show ?thesis by simp
  qed
qed

lemma bind_parameters_Inr:
  assumes "bind_parameters ps vs kwargs = Inr kwargs'"
    and "distinct (map pname ps)" and "i < length ps"
  shows "kwargs' (pname (ps ! i)) =
           (if i < length vs then Some (vs ! i)
            else if nullable (annotation (ps ! i)) then Some NoneV
            else pdefault (ps ! i))"
  using assms
proof (induction ps arbitrary: vs kwargs i)
  case Nil
  then show ?case by simp
next
  case (Cons p ps)
  from Cons.prems(2) have fresh: "pname p \<notin> pname ` set ps" and d: "distinct (map pname ps)"
    by auto
  obtain d0 vs' where
    rest: "bind_parameters ps vs' (kwargs(pname p \<mapsto> d0)) = Inr kwargs'"
    and head: "Some d0 = (if 0 < length vs then Some (vs ! 0)
                          else if nullable (annotation p) then Some NoneV else pdefault p)"
    and tail: "vs' = tl vs"
  proof (cases vs)
    case Nil
    with Cons.prems(1) that show ?thesis by (auto split: if_splits option.splits)
  next
    case (Cons v vs'')
    with Cons.prems(1) that show ?thesis by auto
  qed
  show ?case
  proof (cases i)
    case 0
    from bind_parameters_other[OF rest fresh] head 0 show ?thesis by simp
  next
    case (Suc j)
    with Cons.prems(3) have j: "j < length ps" by simp
    from Cons.IH[OF rest d j] tail Suc show ?thesis
      by (cases vs) auto
  qed
qed

section \<open>Letter case\<close>







section \<open>Patterns that end in a list\<close>

lemma collected_append:
  "collected ucd mgr arguments idx (xs @ ys) c =
     collected ucd mgr arguments idx xs c @ collected ucd mgr arguments (idx + length xs) ys c"
  by (induction xs arbitrary: idx) auto

lemma collected_past:
  assumes "length (args c) \<le> idx"
  shows "collected ucd mgr arguments idx toks c = []"
  using assms by (induction toks arbitrary: idx) (auto simp: emits_def)

lemma ignore_args_size_last:
  assumes "ignore_args_size cmd"
  shows "0 < length (args cmd)"
    and "args cmd ! (length (args cmd) - 1) = Type (Plain ListT)
         \<or> args cmd ! (length (args cmd) - 1) = Type (Plain ListStrT)"
  using assms by (auto simp: ignore_args_size_def is_list_def last_conv_nth split: if_splits)

lemma rest_capture_survives:
  assumes "ignore_args_size cmd" and "length (args cmd) \<le> length arguments"
    and "survives ucd 0 (take (length (args cmd) - 1) arguments) cmd"
  shows "survives ucd 0 arguments cmd"
  unfolding survives_nth
proof (intro allI impI)
  fix i assume i: "i < length arguments"
  let ?p = "length (args cmd) - 1"
  note l = ignore_args_size_last[OF assms(1)]
  consider "i < ?p" | "i = ?p" | "length (args cmd) \<le> i" using l(1) by linarith
  then show "keeps ucd (0 + i) (arguments ! i) cmd"
  proof cases
    case 1
    with assms(3) i show ?thesis by (simp add: survives_nth)
  next
    case 2
    from l(1) have "\<not> length (args cmd) \<le> ?p" by linarith
    with 2 l(2) show ?thesis by (auto simp: keeps_def)
  next
    case 3
    with assms(1) show ?thesis by (simp add: keeps_def)
  qed
qed

lemma rest_capture_collected:
  assumes "ignore_args_size cmd" and "length (args cmd) \<le> length arguments"
  shows "collected ucd mgr arguments 0 arguments cmd =
           collected ucd mgr arguments 0 (take (length (args cmd) - 1) arguments) cmd
           @ [StrList (drop (length (args cmd) - 1) arguments)]"
proof -
  let ?p = "length (args cmd) - 1"
  note l = ignore_args_size_last[OF assms(1)]
  from l(1) assms(2) have p: "?p < length arguments" by linarith
  then have split: "arguments = take ?p arguments @ (arguments ! ?p) # drop (Suc ?p) arguments"
    by (simp add: id_take_nth_drop)
  from p have len: "length (take ?p arguments) = ?p" by simp
  from l(1) have sp: "Suc ?p = length (args cmd)" by simp
  from l(1) have "\<not> length (args cmd) \<le> ?p" by linarith
  with l(2) have e: "emits ucd mgr arguments ?p (arguments ! ?p) cmd = [StrList (drop ?p arguments)]"
    by (auto simp: emits_def)
  have "collected ucd mgr arguments 0 (take ?p arguments @ (arguments ! ?p) # drop (Suc ?p) arguments) cmd
          = collected ucd mgr arguments 0 (take ?p arguments) cmd @ [StrList (drop ?p arguments)]"
    unfolding collected_append using len e sp by (simp add: collected_past)
  with split show ?thesis by simp
qed

section \<open>The store and the scan\<close>

lemma set_list_simps [simp]:
  "list_objs (set_list a hs s) a = hs"
  "b \<noteq> a \<Longrightarrow> list_objs (set_list a hs s) b = list_objs s b"
  "next_addr (set_list a hs s) = next_addr s"
  "set_list a hs (set_list a hs' s) = set_list a hs s"
  "set_list a (list_objs s a) s = s"
  by (simp_all add: set_list_def)

lemma list_remove_set_list: "list_remove a cmd s = set_list a (remove1 cmd (list_objs s a)) s"
  by (simp add: list_remove_def set_list_def)

lemma st_scan_cmd_refines:
  "st_scan_cmd ucd mgr arguments idx arg cmd a as s =
     (case scan_cmd ucd mgr arguments idx arg cmd (list_objs s a, as) of
        Inl e \<Rightarrow> (Inl e, s)
      | Inr (hs', as') \<Rightarrow> (Inr as', set_list a hs' s))"
  by (simp add: st_scan_cmd_def scan_cmd_def list_remove_set_list split: arg.splits sum.splits)

lemma only_at_refl: "only_at a s s"
  unfolding only_at_def by (rule exI[of _ "list_objs s a"]) simp

lemma only_at_set_list: "only_at a (set_list a hs s) s' \<Longrightarrow> only_at a s s'"
  unfolding only_at_def by auto

lemma st_scan_cmd_frame: "only_at a s (snd (st_scan_cmd ucd mgr arguments idx arg cmd a as s))"
  unfolding st_scan_cmd_refines
  by (auto simp: only_at_def only_at_refl[unfolded only_at_def] split: sum.splits)

lemma st_scan_cmds_refines:
  "with_list a (st_scan_cmds ucd mgr arguments idx arg cs a as s)
     = scan_cmds ucd mgr arguments idx arg cs (list_objs s a, as)"
proof (induction cs arbitrary: as s)
  case Nil
  show ?case by (simp add: with_list_def)
next
  case (Cons cmd cs)
  show ?case
  proof (cases "scan_cmd ucd mgr arguments idx arg cmd (list_objs s a, as)")
    case (Inl e)
    then show ?thesis by (simp add: st_scan_cmd_refines with_list_def)
  next
    case (Inr st)
    obtain h1 a1 where st: "st = (h1, a1)" by (cases st)
    with Inr Cons.IH[of a1 "set_list a h1 s"] show ?thesis
      by (simp add: st_scan_cmd_refines)
  qed
qed

lemma st_scan_cmds_frame:
  "only_at a s (snd (st_scan_cmds ucd mgr arguments idx arg cs a as s))"
proof (induction cs arbitrary: as s)
  case Nil
  show ?case by (simp add: only_at_refl)
next
  case (Cons cmd cs)
  show ?case
  proof (cases "scan_cmd ucd mgr arguments idx arg cmd (list_objs s a, as)")
    case (Inl e)
    then show ?thesis by (simp add: st_scan_cmd_refines only_at_refl)
  next
    case (Inr st)
    obtain h1 a1 where st: "st = (h1, a1)" by (cases st)
    from Cons.IH[where s="set_list a h1 s" and as=a1]
    have "only_at a s (snd (st_scan_cmds ucd mgr arguments idx arg cs a a1 (set_list a h1 s)))"
      by (rule only_at_set_list)
    with Inr st show ?thesis by (simp add: st_scan_cmd_refines)
  qed
qed

lemma st_scan_args_refines:
  "with_list a (st_scan_args ucd mgr arguments idx toks a as s)
     = scan_args ucd mgr arguments idx toks (list_objs s a, as)"
proof (induction toks arbitrary: idx as s)
  case Nil
  show ?case by (simp add: with_list_def)
next
  case (Cons arg rest)
  note r = st_scan_cmds_refines[of a ucd mgr arguments idx arg "list_objs s a" as s]
  show ?case
  proof (cases "st_scan_cmds ucd mgr arguments idx arg (list_objs s a) a as s")
    case (Pair res s')
    show ?thesis
    proof (cases res)
      case (Inl e)
      with Pair r have "scan_cmds ucd mgr arguments idx arg (list_objs s a) (list_objs s a, as) = Inl e"
        by (simp add: with_list_def)
      with Pair Inl show ?thesis by (simp add: with_list_def)
    next
      case (Inr as')
      with Pair r have "scan_cmds ucd mgr arguments idx arg (list_objs s a) (list_objs s a, as)
                          = Inr (list_objs s' a, as')"
        by (simp add: with_list_def)
      with Pair Inr Cons.IH[where idx="Suc idx" and as=as' and s=s'] show ?thesis by simp
    qed
  qed
qed

lemma only_at_trans: "only_at a s s' \<Longrightarrow> only_at a s' s'' \<Longrightarrow> only_at a s s''"
  unfolding only_at_def by auto

lemma st_scan_args_frame:
  "only_at a s (snd (st_scan_args ucd mgr arguments idx toks a as s))"
proof (induction toks arbitrary: idx as s)
  case Nil
  show ?case by (simp add: only_at_refl)
next
  case (Cons arg rest)
  note f = st_scan_cmds_frame[of a s ucd mgr arguments idx arg "list_objs s a" as]
  show ?case
  proof (cases "st_scan_cmds ucd mgr arguments idx arg (list_objs s a) a as s")
    case (Pair res s')
    show ?thesis
    proof (cases res)
      case (Inl e)
      with Pair f show ?thesis by simp
    next
      case (Inr as')
      with Pair f Cons.IH[where s=s' and idx="Suc idx" and as=as'] show ?thesis
        by (auto intro: only_at_trans)
    qed
  qed
qed

lemma st_check_arity_refines:
  "st_check_arity n cs a errs s =
     (snd (check_arity n cs (list_objs s a, errs)),
      set_list a (fst (check_arity n cs (list_objs s a, errs))) s)"
proof (induction cs arbitrary: errs s)
  case Nil
  show ?case by simp
next
  case (Cons cmd cs)
  show ?case
    by (simp add: Cons.IH list_remove_set_list)
qed

lemma only_at_other: "only_at a s s' \<Longrightarrow> b \<noteq> a \<Longrightarrow> list_objs s' b = list_objs s b"
  unfolding only_at_def by auto

section \<open>Every registered pattern resolves to its handler\<close>

lemma not_isl_iff: "\<not> isl r \<longleftrightarrow> (\<exists>v. r = Inr v)"
  by (cases r) auto

lemma matches_Cons_iff:
  "matches ucd mgr (typ # typs) toks \<longleftrightarrow>
     (toks = [] \<and> list_all is_optional (typ # typs))
     \<or> (\<exists>tok rest. toks = tok # rest
           \<and> (if typs = [] \<and> is_list (first_only typ) then True
                else (case first_only typ of
                        Literal s \<Rightarrow> lower ucd tok = lower ucd s
                      | Parser p \<Rightarrow> (\<exists>v. parse ucd mgr p tok = Inr v)
                      | Type t \<Rightarrow> True)
                     \<and> matches ucd mgr typs rest))"
  by (cases toks) (auto simp: not_isl_iff split: arg.splits)

lemma matches_Nil_iff: "matches ucd mgr [] toks \<longleftrightarrow> toks = []"
  by (cases toks) auto

lemma scan_spec_idle:
  assumes "list_all (\<lambda>c. length (args c) \<le> idx \<and> ignore_args_size c) hs"
  shows "scan_spec ucd mgr idx toks hs = Inr hs"
  using assms
proof (induction toks arbitrary: idx)
  case Nil
  then show ?case by simp
next
  case (Cons tok toks)
  from Cons.prems have nf: "first_fail ucd mgr idx tok hs = None"
    by (induction hs) (auto simp: fails_def)
  from Cons.prems have keep: "filter (keeps ucd idx tok) hs = hs"
    by (induction hs) (auto simp: keeps_def)
  from Cons.prems have "list_all (\<lambda>c. length (args c) \<le> Suc idx \<and> ignore_args_size c) hs"
    by (induction hs) auto
  from Cons.IH[OF this] nf keep show ?case by simp
qed

lemma get_command_spec:
  "get_command ucd mgr Handler_handlers arguments =
     (case select_spec ucd mgr Handler_handlers arguments of
        Inl e \<Rightarrow> Inl e
      | Inr (cmd, vs) \<Rightarrow>
          (case get_handler_params (handler cmd) vs of
             Inl IndexError \<Rightarrow> Inl (CommandInfoError cmd)
           | Inr kwargs \<Rightarrow> Inr (handler cmd, kwargs)))"
  by (simp add: get_command_def select_command_spec[OF distinct_Handler_handlers])

lemmas rt_defs = Handler_handlers_def decorated_def Handler_call_def select_spec_def
  keeps_def fails_def emits_def arity_survivors_def arity_eliminated_def
  ignore_args_size_def is_list_def lower_words get_handler_params_def
  resolves_to_def bound_values_def matches_Cons_iff matches_Nil_iff
  scan_spec_idle collected_past

lemma rt_0:
  assumes "matches ucd mgr (args (Handler_handlers ! 0)) arguments"
  shows "resolves_to ucd mgr Handler_handlers (Handler_handlers ! 0) arguments"
  using assms unfolding get_command_spec resolves_to_def
  by (auto simp: rt_defs handler_172_def simp del: matches.simps)

lemma rt_1:
  assumes "matches ucd mgr (args (Handler_handlers ! 1)) arguments"
  shows "resolves_to ucd mgr Handler_handlers (Handler_handlers ! 1) arguments"
  using assms unfolding get_command_spec resolves_to_def
  by (auto simp: rt_defs handler_204_def simp del: matches.simps)

lemma rt_2:
  assumes "matches ucd mgr (args (Handler_handlers ! 2)) arguments"
  shows "resolves_to ucd mgr Handler_handlers (Handler_handlers ! 2) arguments"
  using assms unfolding get_command_spec resolves_to_def
  by (auto simp: rt_defs handler_233_def simp del: matches.simps)

lemma rt_3:
  assumes "matches ucd mgr (args (Handler_handlers ! 3)) arguments"
  shows "resolves_to ucd mgr Handler_handlers (Handler_handlers ! 3) arguments"
  using assms unfolding get_command_spec resolves_to_def
  by (auto simp: rt_defs handler_256_def simp del: matches.simps)

lemma rt_4:
  assumes "matches ucd mgr (args (Handler_handlers ! 4)) arguments"
  shows "resolves_to ucd mgr Handler_handlers (Handler_handlers ! 4) arguments"
  using assms unfolding get_command_spec resolves_to_def
  by (auto simp: rt_defs handler_272_def simp del: matches.simps)

lemma rt_5:
  assumes "matches ucd mgr (args (Handler_handlers ! 5)) arguments"
  shows "resolves_to ucd mgr Handler_handlers (Handler_handlers ! 5) arguments"
  using assms unfolding get_command_spec resolves_to_def
  by (auto simp: rt_defs handler_288_def simp del: matches.simps)

lemma rt_6:
  assumes "matches ucd mgr (args (Handler_handlers ! 6)) arguments"
  shows "resolves_to ucd mgr Handler_handlers (Handler_handlers ! 6) arguments"
  using assms unfolding get_command_spec resolves_to_def
  by (auto simp: rt_defs handler_300_def simp del: matches.simps)

lemma rt_7:
  assumes "matches ucd mgr (args (Handler_handlers ! 7)) arguments"
  shows "resolves_to ucd mgr Handler_handlers (Handler_handlers ! 7) arguments"
  using assms unfolding get_command_spec resolves_to_def
  by (auto simp: rt_defs handler_328_def simp del: matches.simps)

lemma rt_8:
  assumes "matches ucd mgr (args (Handler_handlers ! 8)) arguments"
  shows "resolves_to ucd mgr Handler_handlers (Handler_handlers ! 8) arguments"
  using assms unfolding get_command_spec resolves_to_def
  by (auto simp: rt_defs handler_353_def simp del: matches.simps)

lemma rt_9:
  assumes "matches ucd mgr (args (Handler_handlers ! 9)) arguments"
  shows "resolves_to ucd mgr Handler_handlers (Handler_handlers ! 9) arguments"
  using assms unfolding get_command_spec resolves_to_def
  by (auto simp: rt_defs handler_370_def simp del: matches.simps)

lemma rt_10:
  assumes "matches ucd mgr (args (Handler_handlers ! 10)) arguments"
  shows "resolves_to ucd mgr Handler_handlers (Handler_handlers ! 10) arguments"
  using assms unfolding get_command_spec resolves_to_def
  by (auto simp: rt_defs handler_387_def simp del: matches.simps)

lemma rt_11:
  assumes "matches ucd mgr (args (Handler_handlers ! 11)) arguments"
  shows "resolves_to ucd mgr Handler_handlers (Handler_handlers ! 11) arguments"
  using assms unfolding get_command_spec resolves_to_def
  by (auto simp: rt_defs handler_410_def simp del: matches.simps)

lemma rt_12:
  assumes "matches ucd mgr (args (Handler_handlers ! 12)) arguments"
  shows "resolves_to ucd mgr Handler_handlers (Handler_handlers ! 12) arguments"
  using assms unfolding get_command_spec resolves_to_def
  by (auto simp: rt_defs handler_431_def simp del: matches.simps)

lemma rt_13:
  assumes "matches ucd mgr (args (Handler_handlers ! 13)) arguments"
  shows "resolves_to ucd mgr Handler_handlers (Handler_handlers ! 13) arguments"
  using assms unfolding get_command_spec resolves_to_def
  by (auto simp: rt_defs handler_461_def simp del: matches.simps)

lemma rt_14:
  assumes "matches ucd mgr (args (Handler_handlers ! 14)) arguments"
    and "length arguments \<le> length (args (Handler_handlers ! 14))"
  shows "resolves_to ucd mgr Handler_handlers (Handler_handlers ! 14) arguments"
  using assms unfolding get_command_spec resolves_to_def
  by (auto simp: rt_defs handler_488_def simp del: matches.simps)

lemma rt_15:
  assumes "matches ucd mgr (args (Handler_handlers ! 15)) arguments"
  shows "resolves_to ucd mgr Handler_handlers (Handler_handlers ! 15) arguments"
  using assms unfolding get_command_spec resolves_to_def
  by (auto simp: rt_defs handler_510_def simp del: matches.simps)

lemma rt_16:
  assumes "matches ucd mgr (args (Handler_handlers ! 16)) arguments"
  shows "resolves_to ucd mgr Handler_handlers (Handler_handlers ! 16) arguments"
  using assms unfolding get_command_spec resolves_to_def
  by (auto simp: rt_defs handler_524_def simp del: matches.simps)

lemma rt_17:
  assumes "matches ucd mgr (args (Handler_handlers ! 17)) arguments"
  shows "resolves_to ucd mgr Handler_handlers (Handler_handlers ! 17) arguments"
  using assms unfolding get_command_spec resolves_to_def
  by (auto simp: rt_defs handler_547_def simp del: matches.simps)

lemma rt_18:
  assumes "matches ucd mgr (args (Handler_handlers ! 18)) arguments"
  shows "resolves_to ucd mgr Handler_handlers (Handler_handlers ! 18) arguments"
  using assms unfolding get_command_spec resolves_to_def
  by (auto simp: rt_defs handler_570_def simp del: matches.simps)

lemma rt_19:
  assumes "matches ucd mgr (args (Handler_handlers ! 19)) arguments"
  shows "resolves_to ucd mgr Handler_handlers (Handler_handlers ! 19) arguments"
  using assms unfolding get_command_spec resolves_to_def
  by (auto simp: rt_defs handler_592_def simp del: matches.simps)

lemma rt_20:
  assumes "matches ucd mgr (args (Handler_handlers ! 20)) arguments"
  shows "resolves_to ucd mgr Handler_handlers (Handler_handlers ! 20) arguments"
  using assms unfolding get_command_spec resolves_to_def
  by (auto simp: rt_defs handler_614_def simp del: matches.simps)

lemma rt_21:
  assumes "matches ucd mgr (args (Handler_handlers ! 21)) arguments"
  shows "resolves_to ucd mgr Handler_handlers (Handler_handlers ! 21) arguments"
  using assms unfolding get_command_spec resolves_to_def
  by (auto simp: rt_defs handler_642_def simp del: matches.simps)

lemma rt_22:
  assumes "matches ucd mgr (args (Handler_handlers ! 22)) arguments"
  shows "resolves_to ucd mgr Handler_handlers (Handler_handlers ! 22) arguments"
  using assms unfolding get_command_spec resolves_to_def
  by (auto simp: rt_defs handler_670_def simp del: matches.simps)

lemma rt_23:
  assumes "matches ucd mgr (args (Handler_handlers ! 23)) arguments"
  shows "resolves_to ucd mgr Handler_handlers (Handler_handlers ! 23) arguments"
  using assms unfolding get_command_spec resolves_to_def
  by (auto simp: rt_defs handler_694_def simp del: matches.simps)

lemma rt_24:
  assumes "matches ucd mgr (args (Handler_handlers ! 24)) arguments"
  shows "resolves_to ucd mgr Handler_handlers (Handler_handlers ! 24) arguments"
  using assms unfolding get_command_spec resolves_to_def
  by (auto simp: rt_defs handle_718_def simp del: matches.simps)

lemma rt_25:
  assumes "matches ucd mgr (args (Handler_handlers ! 25)) arguments"
    and "length arguments \<le> length (args (Handler_handlers ! 25))"
  shows "resolves_to ucd mgr Handler_handlers (Handler_handlers ! 25) arguments"
  using assms unfolding get_command_spec resolves_to_def
  by (auto simp: rt_defs handler_743_def simp del: matches.simps)

lemma rt_26:
  assumes "matches ucd mgr (args (Handler_handlers ! 26)) arguments"
  shows "resolves_to ucd mgr Handler_handlers (Handler_handlers ! 26) arguments"
  using assms unfolding get_command_spec resolves_to_def
  by (auto simp: rt_defs handler_775_def simp del: matches.simps)

lemma rt_27:
  assumes "matches ucd mgr (args (Handler_handlers ! 27)) arguments"
  shows "resolves_to ucd mgr Handler_handlers (Handler_handlers ! 27) arguments"
  using assms unfolding get_command_spec resolves_to_def
  by (auto simp: rt_defs handler_797_def simp del: matches.simps)

lemma rt_28:
  assumes "matches ucd mgr (args (Handler_handlers ! 28)) arguments"
  shows "resolves_to ucd mgr Handler_handlers (Handler_handlers ! 28) arguments"
  using assms unfolding get_command_spec resolves_to_def
  by (auto simp: rt_defs handler_811_def simp del: matches.simps)

lemma rt_29:
  assumes "matches ucd mgr (args (Handler_handlers ! 29)) arguments"
  shows "resolves_to ucd mgr Handler_handlers (Handler_handlers ! 29) arguments"
  using assms unfolding get_command_spec resolves_to_def
  by (auto simp: rt_defs handler_825_def simp del: matches.simps)

lemma rt_30:
  assumes "matches ucd mgr (args (Handler_handlers ! 30)) arguments"
  shows "resolves_to ucd mgr Handler_handlers (Handler_handlers ! 30) arguments"
  using assms unfolding get_command_spec resolves_to_def
  by (auto simp: rt_defs handler_851_def simp del: matches.simps)

lemma rt_31:
  assumes "matches ucd mgr (args (Handler_handlers ! 31)) arguments"
  shows "resolves_to ucd mgr Handler_handlers (Handler_handlers ! 31) arguments"
  using assms unfolding get_command_spec resolves_to_def
  by (auto simp: rt_defs handler_868_def simp del: matches.simps)

lemma rt_32:
  assumes "matches ucd mgr (args (Handler_handlers ! 32)) arguments"
  shows "resolves_to ucd mgr Handler_handlers (Handler_handlers ! 32) arguments"
  using assms unfolding get_command_spec resolves_to_def
  by (auto simp: rt_defs handler_891_def simp del: matches.simps)

lemma length_Handler_handlers: "length Handler_handlers = 33"
  by (simp add: Handler_handlers_def decorated_def Handler_call_def)

lemma nth_resolves:
  assumes "i < 33" and "matches ucd mgr (args (Handler_handlers ! i)) arguments"
    and "ignore_args_size (Handler_handlers ! i)
         \<or> length arguments \<le> length (args (Handler_handlers ! i))"
  shows "resolves_to ucd mgr Handler_handlers (Handler_handlers ! i) arguments"
proof -
  consider "i = 14" | "i = 25" | "i \<noteq> 14 \<and> i \<noteq> 25" by blast
  then show ?thesis
  proof cases
    case 1
    have "\<not> ignore_args_size (Handler_handlers ! 14)" by (simp add: spec_defs)
    with 1 assms(2,3) show ?thesis by (simp add: rt_14 del: matches.simps)
  next
    case 2
    have "\<not> ignore_args_size (Handler_handlers ! 25)" by (simp add: spec_defs)
    with 2 assms(2,3) show ?thesis by (simp add: rt_25 del: matches.simps)
  next
    case 3
    with assms(1) have "i = 0 \<or> i = 1 \<or> i = 2 \<or> i = 3 \<or> i = 4 \<or> i = 5 \<or> i = 6 \<or> i = 7 \<or> i = 8
        \<or> i = 9 \<or> i = 10 \<or> i = 11 \<or> i = 12 \<or> i = 13 \<or> i = 15 \<or> i = 16
        \<or> i = 17 \<or> i = 18 \<or> i = 19 \<or> i = 20 \<or> i = 21 \<or> i = 22 \<or> i = 23 \<or> i = 24
        \<or> i = 26 \<or> i = 27 \<or> i = 28 \<or> i = 29 \<or> i = 30 \<or> i = 31 \<or> i = 32"
      by arith
    with assms(2) show ?thesis
      by (elim disjE)
         (simp_all only: rt_0 rt_1 rt_2 rt_3 rt_4 rt_5 rt_6 rt_7 rt_8 rt_9 rt_10 rt_11 rt_12
            rt_13 rt_15 rt_16 rt_17 rt_18 rt_19 rt_20 rt_21 rt_22 rt_23 rt_24
            rt_26 rt_27 rt_28 rt_29 rt_30 rt_31 rt_32)
  qed
qed

section \<open>Registered patterns that end in a list\<close>

lemma matches_snoc_list:
  assumes "is_list (first_only l)" and "length xs < length toks"
    and "matches ucd mgr xs (take (length xs) toks)"
  shows "matches ucd mgr (xs @ [l]) toks"
  using assms(2,3)
proof (induction xs arbitrary: toks)
  case Nil
  then show ?case using assms(1) by (cases toks) auto
next
  case (Cons x xs)
  from Cons.prems(1) obtain t ts where t: "toks = t # ts" by (cases toks) auto
  with Cons.prems(1) have l: "length xs < length ts" by simp
  show ?case
  proof (cases "xs = [] \<and> is_list (first_only x)")
    case True
    then have "(case first_only x of Literal s \<Rightarrow> lower ucd t = lower ucd s
                 | Parser p \<Rightarrow> \<not> isl (parse ucd mgr p t) | Type ty \<Rightarrow> True)"
      by (auto simp: is_list_def)
    moreover from True l assms(1) have "matches ucd mgr (xs @ [l]) ts"
      by (cases ts) auto
    ultimately show ?thesis using t by simp
  next
    case False
    with Cons.prems(2) t have
      e: "(case first_only x of Literal s \<Rightarrow> lower ucd t = lower ucd s
                 | Parser p \<Rightarrow> \<not> isl (parse ucd mgr p t) | Type ty \<Rightarrow> True)"
      and m: "matches ucd mgr xs (take (length xs) ts)"
      by auto
    from Cons.IH[OF l m] e t show ?thesis by simp
  qed
qed

lemma rest_capture_missing:
  assumes "ignore_args_size cmd" and "length toks = length (args cmd) - 1"
  shows "missing_required (drop (length toks) (args cmd))"
proof -
  note l = ignore_args_size_last[OF assms(1)]
  from l(1) have "args cmd = take (length (args cmd) - 1) (args cmd)
                     @ [args cmd ! (length (args cmd) - 1)]"
    by (metis Suc_diff_1 lessI take_Suc_conv_app_nth take_all order_refl)
  then have "drop (length (args cmd) - 1) (args cmd) = [args cmd ! (length (args cmd) - 1)]"
    by (metis append_eq_conv_conj length_take min.absorb2 diff_le_self)
  with l(2) assms(2) show ?thesis by auto
qed

lemma list_terminated:
  assumes "cmd \<in> set Handler_handlers" and "ignore_args_size cmd"
  shows "cmd = Handler_handlers ! 6 \<or> cmd = Handler_handlers ! 7"
proof -
  have "filter ignore_args_size Handler_handlers = [Handler_handlers ! 6, Handler_handlers ! 7]"
    by (simp add: spec_defs)
  moreover from assms have "cmd \<in> set (filter ignore_args_size Handler_handlers)" by simp
  ultimately show ?thesis by simp
qed

lemma rc_6:
  assumes "matches ucd mgr (args (Handler_handlers ! 6)) arguments"
  shows "\<exists>vs kwargs. select_spec ucd mgr Handler_handlers arguments = Inr (Handler_handlers ! 6, vs)
           \<and> get_command ucd mgr Handler_handlers arguments = Inr (handler_300, kwargs)
           \<and> kwargs ''alias'' = Some (StrList (drop 3 arguments))"
  using assms unfolding get_command_spec
  by (auto simp: rt_defs handler_300_def simp del: matches.simps)

lemma rc_7:
  assumes "matches ucd mgr (args (Handler_handlers ! 7)) arguments"
  shows "\<exists>vs kwargs. select_spec ucd mgr Handler_handlers arguments = Inr (Handler_handlers ! 7, vs)
           \<and> get_command ucd mgr Handler_handlers arguments = Inr (handler_328, kwargs)
           \<and> kwargs ''alias'' = Some (StrList (drop 3 arguments))"
  using assms unfolding get_command_spec
  by (auto simp: rt_defs handler_328_def simp del: matches.simps)

section \<open>Properties of resolution\<close>

text \<open>
  C1, as amended. Let \<open>cmd\<close> be a registered handler whose pattern ends in \<open>list\<close> or
  \<open>list[str]\<close>, at position \<open>p = length (args cmd) - 1\<close>, and let the input match every
  element before \<open>p\<close> and have a token at \<open>p\<close>. Then \<open>get_command\<close> succeeds with the
  function of \<open>cmd\<close>, and its last parameter receives the list of the tokens from \<open>p\<close> to
  the end; \<open>cmd\<close> is among the candidates left by the scan, whatever tokens follow \<open>p\<close>.
  When an input ends just before \<open>p\<close>, in any registry, the arity check removes \<open>cmd\<close> and
  \<open>cmd\<close> is not the handler chosen: no empty list is bound.
\<close>

theorem rest_capture_receives_suffix:
  assumes "cmd \<in> set Handler_handlers" and "ignore_args_size cmd"
    and "matches ucd mgr (butlast (args cmd)) (take (length (args cmd) - 1) arguments)"
    and "length (args cmd) \<le> length arguments"
  shows "(\<exists>kwargs. get_command ucd mgr Handler_handlers arguments = Inr (handler cmd, kwargs)
            \<and> kwargs (pname (last (parameters (handler cmd))))
                = Some (StrList (drop (length (args cmd) - 1) arguments)))
         \<and> cmd \<in> set (live_after_scan ucd mgr Handler_handlers arguments)
         \<and> (\<forall>hs toks vs. length toks = length (args cmd) - 1
               \<longrightarrow> cmd \<notin> set (arity_survivors (length toks) hs)
                   \<and> select_command ucd mgr hs toks \<noteq> Inr (cmd, vs))"
proof -
  note l = ignore_args_size_last[OF assms(2)]
  from l(1) have ne: "args cmd \<noteq> []" by auto
  then have split: "butlast (args cmd) @ [last (args cmd)] = args cmd" by simp
  from assms(2) ne have il: "is_list (first_only (last (args cmd)))"
    by (auto simp: ignore_args_size_def is_list_def)
  have len: "length (butlast (args cmd)) < length arguments"
    unfolding length_butlast using l(1) assms(4) by linarith
  have "matches ucd mgr (butlast (args cmd) @ [last (args cmd)]) arguments"
    by (rule matches_snoc_list[OF il len]) (use assms(3) in simp)
  with split have m: "matches ucd mgr (args cmd) arguments" by simp
  have sel_get: "\<exists>vs kwargs. select_command ucd mgr Handler_handlers arguments = Inr (cmd, vs)
           \<and> get_command ucd mgr Handler_handlers arguments = Inr (handler cmd, kwargs)
           \<and> kwargs (pname (last (parameters (handler cmd))))
                = Some (StrList (drop (length (args cmd) - 1) arguments))"
  proof -
    from list_terminated[OF assms(1,2)]
    consider "cmd = Handler_handlers ! 6" | "cmd = Handler_handlers ! 7" by blast
    then show ?thesis
    proof cases
      case 1
      have e: "handler (Handler_handlers ! 6) = handler_300"
        "pname (last (parameters handler_300)) = ''alias''"
        "length (args (Handler_handlers ! 6)) - 1 = 3"
        by (simp_all add: spec_defs handler_300_def)
      from rc_6[OF m[unfolded 1]] show ?thesis
        unfolding 1 e select_command_spec[OF distinct_Handler_handlers] by blast
    next
      case 2
      have e: "handler (Handler_handlers ! 7) = handler_328"
        "pname (last (parameters handler_328)) = ''alias''"
        "length (args (Handler_handlers ! 7)) - 1 = 3"
        by (simp_all add: spec_defs handler_328_def)
      from rc_7[OF m[unfolded 2]] show ?thesis
        unfolding 2 e select_command_spec[OF distinct_Handler_handlers] by blast
    qed
  qed
  then obtain vs kwargs where
    sel: "select_command ucd mgr Handler_handlers arguments = Inr (cmd, vs)"
    and get: "get_command ucd mgr Handler_handlers arguments = Inr (handler cmd, kwargs)"
    and kw: "kwargs (pname (last (parameters (handler cmd))))
                = Some (StrList (drop (length (args cmd) - 1) arguments))"
    by blast
  from select_command_Inr[OF sel] obtain live as ws where
    sc: "scan_args ucd mgr arguments 0 arguments (Handler_handlers, \<lambda>hdl. []) = Inr (live, as)"
    and w: "arity_survivors (length arguments) live = cmd # ws" by blast
  from w have "cmd \<in> set live"
    by (metis arity_survivors_def filter_is_subset list.set_intros(1) subsetD)
  with sc have 2: "cmd \<in> set (live_after_scan ucd mgr Handler_handlers arguments)"
    by (simp add: live_after_scan_def)
  have 3: "cmd \<notin> set (arity_survivors (length toks) hs)
           \<and> select_command ucd mgr hs toks \<noteq> Inr (cmd, vs')"
    if t: "length toks = length (args cmd) - 1" for hs toks vs'
  proof -
    from rest_capture_missing[OF assms(2) t]
    have out: "cmd \<notin> set (arity_survivors (length toks) hs')" for hs'
      by (simp add: arity_survivors_def)
    have "select_command ucd mgr hs toks \<noteq> Inr (cmd, vs')"
    proof
      assume "select_command ucd mgr hs toks = Inr (cmd, vs')"
      from select_command_Inr[OF this] obtain live' ws' where
        "arity_survivors (length toks) live' = cmd # ws'" by blast
      then have "cmd \<in> set (arity_survivors (length toks) live')" by simp
      with out show False by blast
    qed
    with out show ?thesis by blast
  qed
  from get kw 2 3 show ?thesis by blast
qed

theorem rest_capture_receives_suffix_witness:
  "\<forall>ucd. Handler_handlers ! 6 \<in> set Handler_handlers
     \<and> ignore_args_size (Handler_handlers ! 6)
     \<and> matches ucd example_mgr (butlast (args (Handler_handlers ! 6)))
           (take 3 [''command'', ''ping'', ''addAlias'', ''p'', ''pp''])
     \<and> length (args (Handler_handlers ! 6)) \<le> length [''command'', ''ping'', ''addAlias'', ''p'', ''pp'']
     \<and> (\<exists>kwargs. get_command ucd example_mgr Handler_handlers
                      [''command'', ''ping'', ''addAlias'', ''p'', ''pp'']
                    = Inr (handler_300, kwargs)
            \<and> kwargs ''alias'' = Some (StrList [''p'', ''pp'']))"
proof
  fix ucd
  let ?toks = "[''command'', ''ping'', ''addAlias'', ''p'', ''pp'']"
  let ?cmd = "Handler_handlers ! 6"
  have h1: "?cmd \<in> set Handler_handlers" by (simp add: length_Handler_handlers)
  have h2: "ignore_args_size ?cmd" by (simp add: spec_defs)
  have h3: "matches ucd example_mgr (butlast (args ?cmd)) (take (length (args ?cmd) - 1) ?toks)"
    by (simp add: spec_defs)
  have c3: "matches ucd example_mgr (butlast (args ?cmd)) (take 3 ?toks)"
    by (simp add: spec_defs)
  have h4: "length (args ?cmd) \<le> length ?toks" by (simp add: spec_defs)
  have e: "handler ?cmd = handler_300" "pname (last (parameters handler_300)) = ''alias''"
    "drop (length (args ?cmd) - 1) ?toks = [''p'', ''pp'']"
    by (simp_all add: spec_defs handler_300_def)
  from rest_capture_receives_suffix[OF h1 h2 h3 h4]
  have c5: "\<exists>kwargs. get_command ucd example_mgr Handler_handlers ?toks = Inr (handler_300, kwargs)
            \<and> kwargs ''alias'' = Some (StrList [''p'', ''pp''])"
    unfolding e by blast
  show "?cmd \<in> set Handler_handlers \<and> ignore_args_size ?cmd
     \<and> matches ucd example_mgr (butlast (args ?cmd)) (take 3 ?toks)
     \<and> length (args ?cmd) \<le> length ?toks
     \<and> (\<exists>kwargs. get_command ucd example_mgr Handler_handlers ?toks = Inr (handler_300, kwargs)
            \<and> kwargs ''alias'' = Some (StrList [''p'', ''pp'']))"
    by (rule conjI[OF h1 conjI[OF h2 conjI[OF c3 conjI[OF h4 c5]]]])
qed

text \<open>
  The input \<open>command ping addAlias\<close> matches every element before the list of the \<open>addAlias\<close>
  pattern and ends there: \<open>get_command\<close> raises \<open>CommandInfoError\<close> for that handler.
\<close>

theorem rest_capture_empty_counterexample:
  "\<forall>ucd. Handler_handlers ! 6 \<in> set Handler_handlers
     \<and> ignore_args_size (Handler_handlers ! 6)
     \<and> length [''command'', ''ping'', ''addAlias''] = length (args (Handler_handlers ! 6)) - 1
     \<and> matches ucd example_mgr (butlast (args (Handler_handlers ! 6)))
           [''command'', ''ping'', ''addAlias'']
     \<and> get_command ucd example_mgr Handler_handlers [''command'', ''ping'', ''addAlias'']
         = Inl (CommandInfoError (Handler_handlers ! 6))"
proof
  fix ucd
  let ?toks = "[''command'', ''ping'', ''addAlias'']"
  let ?cmd = "Handler_handlers ! 6"
  have "select_command ucd example_mgr Handler_handlers ?toks = Inl (CommandInfoError ?cmd)"
    unfolding select_command_spec[OF distinct_Handler_handlers] by (simp add: spec_defs)
  then have c5: "get_command ucd example_mgr Handler_handlers ?toks = Inl (CommandInfoError ?cmd)"
    by (simp add: get_command_def)
  have c1: "?cmd \<in> set Handler_handlers" by (simp add: length_Handler_handlers)
  have c2: "ignore_args_size ?cmd" by (simp add: spec_defs)
  have c3: "length ?toks = length (args ?cmd) - 1" by (simp add: spec_defs)
  have c4: "matches ucd example_mgr (butlast (args ?cmd)) ?toks" by (simp add: spec_defs)
  show "?cmd \<in> set Handler_handlers \<and> ignore_args_size ?cmd
     \<and> length ?toks = length (args ?cmd) - 1
     \<and> matches ucd example_mgr (butlast (args ?cmd)) ?toks
     \<and> get_command ucd example_mgr Handler_handlers ?toks = Inl (CommandInfoError ?cmd)"
    by (rule conjI[OF c1 conjI[OF c2 conjI[OF c3 conjI[OF c4 c5]]]])
qed


text \<open>
  C2. Suppose the scan reaches token \<open>i\<close> without a parser failure, with the candidates
  \<open>pre @ cmd # post\<close> left, no candidate of \<open>pre\<close> fails at token \<open>i\<close>, and the pattern of
  \<open>cmd\<close> has at \<open>i\<close> a parser that fails on the token with \<open>message\<close>. Then \<open>get_command\<close>
  raises \<open>CommandMessageError message\<close>, whatever the candidates \<open>post\<close> after \<open>cmd\<close> are and
  whatever the candidates of \<open>pre\<close> matched.
\<close>

theorem parser_failure_aborts:
  assumes "i < length arguments"
    and "scan_args ucd mgr arguments 0 (take i arguments) (hs, \<lambda>hdl. []) = Inr (live, as)"
    and "live = pre @ cmd # post"
    and "first_fail ucd mgr i (arguments ! i) pre = None"
    and "i < length (args cmd)" and "args cmd ! i = Parser p"
    and "parse ucd mgr p (arguments ! i) = Inl message"
  shows "get_command ucd mgr hs arguments = Inl (CommandMessageError message)"
proof -
  from assms(5-7) have "fails ucd mgr i (arguments ! i) cmd = Some message"
    by (simp add: fails_def)
  with assms(3,4) have "first_fail ucd mgr i (arguments ! i) live = Some message"
    by (simp add: first_fail_append)
  then have step: "scan_cmds ucd mgr arguments i (arguments ! i) live (live, as)
                     = Inl (CommandMessageError message)"
    by (simp add: scan_cmds_Inl_iff)
  from assms(1) have split: "arguments = take i arguments @ (arguments ! i) # drop (Suc i) arguments"
    by (simp add: id_take_nth_drop)
  from assms(1) have len: "length (take i arguments) = i" by simp
  have "scan_args ucd mgr arguments 0 (take i arguments @ (arguments ! i) # drop (Suc i) arguments)
          (hs, \<lambda>hdl. []) = Inl (CommandMessageError message)"
    unfolding scan_args_append using assms(2) step len by simp
  with split have "scan_args ucd mgr arguments 0 arguments (hs, \<lambda>hdl. [])
                     = Inl (CommandMessageError message)" by simp
  moreover from assms(1) have "arguments \<noteq> []" by auto
  ultimately show ?thesis by (simp add: get_command_def select_command_def)
qed

theorem parser_failure_aborts_witness:
  "\<forall>ucd. (1::nat) < length [''command'', ''now'']
     \<and> scan_args ucd example_mgr [''command'', ''now''] 0 (take 1 [''command'', ''now'']) (rivals, \<lambda>hdl. [])
         = Inr (rivals, \<lambda>hdl. [])
     \<and> rivals = [] @ hd rivals # tl rivals
     \<and> first_fail ucd example_mgr 1 ([''command'', ''now''] ! 1) [] = None
     \<and> 1 < length (args (hd rivals)) \<and> args (hd rivals) ! 1 = Parser CommandEntryArgument
     \<and> parse ucd example_mgr CommandEntryArgument ([''command'', ''now''] ! 1) = Inl (command_not_defined ''now'')
     \<and> keeps ucd 1 ''now'' (hd (tl rivals))
     \<and> get_command ucd example_mgr rivals [''command'', ''now'']
         = Inl (CommandMessageError (command_not_defined ''now''))"
  apply (rule allI)
  subgoal for ucd
  using parser_failure_aborts[of 1 "[''command'', ''now'']" ucd example_mgr rivals rivals "\<lambda>hdl. []"
      "[]" "hd rivals" "tl rivals" CommandEntryArgument "command_not_defined ''now''"]
  by (simp add: rivals_def eval_defs keeps_def)
  done


text \<open>
  C3. When the choice of a handler fails with an error that is not a parser's message, the
  scan has run to its end, no candidate passes the arity check (or the input is empty),
  and the error is \<open>CommandInfoError s\<close> exactly when the input is not empty and \<open>s\<close> is the
  one candidate that the arity check removed; otherwise it is \<open>CommandNotFoundError\<close>.
  \<open>get_command\<close> raises the same error. (Failures of the binding come after a handler is
  chosen; they are the subject of C5.)
\<close>

theorem incomplete_or_not_found:
  assumes "select_command ucd mgr hs arguments = Inl e"
    and "\<forall>message. e \<noteq> CommandMessageError message"
  shows "\<exists>live as.
           scan_args ucd mgr arguments 0 arguments (hs, \<lambda>hdl. []) = Inr (live, as)
           \<and> (arguments = [] \<or> arity_survivors (length arguments) live = [])
           \<and> e = (case arity_eliminated (length arguments) live of
                     [s] \<Rightarrow> if arguments = [] then CommandNotFoundError else CommandInfoError s
                   | _ \<Rightarrow> CommandNotFoundError)
           \<and> get_command ucd mgr hs arguments = Inl e"
proof (cases "scan_args ucd mgr arguments 0 arguments (hs, \<lambda>hdl. [])")
  case (Inl e')
  then have ne: "arguments \<noteq> []" by auto
  with Inl assms(1) have "e = e'" by (simp add: select_command_def)
  with scan_args_Inl[OF Inl] assms(2) show ?thesis by blast
next
  case (Inr st)
  obtain live as where st: "st = (live, as)" by (cases st)
  from select_command_eq[of ucd mgr arguments hs live as] Inr st assms(1)
  have e: "e = (case arity_eliminated (length arguments) live of
                     [s] \<Rightarrow> if arguments = [] then CommandNotFoundError else CommandInfoError s
                   | _ \<Rightarrow> CommandNotFoundError)"
    and f: "arguments = [] \<or> arity_survivors (length arguments) live = []"
    by (auto split: if_splits list.splits)
  from assms(1) have "get_command ucd mgr hs arguments = Inl e" by (simp add: get_command_def)
  with e f Inr st show ?thesis by blast
qed

theorem incomplete_or_not_found_witness:
  "\<forall>ucd. select_command ucd example_mgr Handler_handlers [''removeCommand'']
       = Inl (CommandInfoError (Handler_handlers ! 2))
     \<and> get_command ucd example_mgr Handler_handlers [''removeCommand'']
       = Inl (CommandInfoError (Handler_handlers ! 2))"
  apply (rule allI)
  subgoal for ucd
proof -
  have s: "select_command ucd example_mgr Handler_handlers [''removeCommand'']
             = Inl (CommandInfoError (Handler_handlers ! 2))"
    unfolding select_command_spec[OF distinct_Handler_handlers] by (simp add: spec_defs)
  from incomplete_or_not_found[OF s] show ?thesis using s by auto
qed
  done


text \<open>
  C4. When candidates pass both the scan and the arity check, \<open>get_command\<close> takes the first
  of them: the result is built from the head \<open>w\<close> of the surviving list. That list is a
  sublist of the registry in registration order, so \<open>w\<close> is registered before every other
  survivor.
\<close>

theorem first_registered_wins:
  assumes "scan_args ucd mgr arguments 0 arguments (hs, \<lambda>hdl. []) = Inr (live, as)"
    and "arguments \<noteq> []"
    and "arity_survivors (length arguments) live = w # ws"
  shows "select_command ucd mgr hs arguments = Inr (w, as w)
         \<and> get_command ucd mgr hs arguments =
             (case get_handler_params (handler w) (as w) of
                Inl IndexError \<Rightarrow> Inl (CommandInfoError w)
              | Inr kwargs \<Rightarrow> Inr (handler w, kwargs))
         \<and> (\<exists>pre post. hs = pre @ w # post \<and> subseq ws post)"
proof -
  from select_command_eq[OF assms(1)] assms(2,3)
  have sel: "select_command ucd mgr hs arguments = Inr (w, as w)" by simp
  then have get: "get_command ucd mgr hs arguments =
             (case get_handler_params (handler w) (as w) of
                Inl IndexError \<Rightarrow> Inl (CommandInfoError w)
              | Inr kwargs \<Rightarrow> Inr (handler w, kwargs))"
    by (simp add: get_command_def)
  from scan_args_handlers[OF assms(1)] have "live = filter (survives ucd 0 arguments) hs" .
  with assms(3) have "w # ws = filter (\<lambda>c. survives ucd 0 arguments c \<and> \<not> missing_required (drop (length arguments) (args c))) hs"
    by (simp add: arity_survivors_def)
  then have "subseq (w # ws) hs"
    by (simp only: subseq_filter_left)
  then have "\<exists>pre post. hs = pre @ w # post \<and> subseq ws post"
    using list_emb_ConsD[of "(=)" w ws hs] by blast
  with sel get show ?thesis by blast
qed

theorem first_registered_wins_witness:
  "\<forall>ucd. scan_args ucd example_mgr [''LISTCOMMANDS''] 0 [''LISTCOMMANDS''] (twins, \<lambda>hdl. []) = Inr (twins, \<lambda>hdl. [])
     \<and> arity_survivors (length [''LISTCOMMANDS'']) twins = twins
     \<and> length twins = 2
     \<and> select_command ucd example_mgr twins [''LISTCOMMANDS''] = Inr (hd twins, [])
     \<and> get_command ucd example_mgr twins [''LISTCOMMANDS'']
          = Inr (handler_172, [''self'' \<mapsto> SelfObj, ''ctx'' \<mapsto> CtxObj])"
  apply (rule allI)
  subgoal for ucd
  using first_registered_wins[of ucd example_mgr "[''LISTCOMMANDS'']" twins twins "\<lambda>hdl. []" "hd twins" "tl twins"]
  by (simp add: twins_def eval_defs arity_survivors_def handler_172_def)
  done


text \<open>
  C5. Let \<open>cmd\<close> be the first candidate left by the scan whose pattern elements beyond the
  input are all unions with \<open>None\<close> (it passes the arity check, the candidates before it do
  not), and let \<open>ps\<close> be the parameters of its function after \<open>self\<close> and \<open>ctx\<close>. Binding
  gives the \<open>i\<close>-th parameter the \<open>i\<close>-th collected value when there is one; otherwise \<open>None\<close>
  when its annotation is a union with \<open>None\<close>, otherwise its default. When a parameter
  without a value is neither nullable nor has a default, \<open>get_command\<close> raises
  \<open>CommandInfoError cmd\<close>. So a call that omits only nullable trailing positions succeeds
  with those parameters bound to \<open>None\<close>.
\<close>

theorem binding_rule:
  assumes "scan_args ucd mgr arguments 0 arguments (hs, \<lambda>hdl. []) = Inr (live, as)"
    and "arguments \<noteq> []"
    and "live = pre @ cmd # post"
    and "list_all (\<lambda>c. missing_required (drop (length arguments) (args c))) pre"
    and "list_all is_optional (drop (length arguments) (args cmd))"
    and "parameters (handler cmd) = self # ctx # ps"
    and "distinct (map pname ps)"
  shows "if list_ex (\<lambda>p. \<not> nullable (annotation p) \<and> pdefault p = None) (drop (length (as cmd)) ps)
         then get_command ucd mgr hs arguments = Inl (CommandInfoError cmd)
         else (\<exists>kwargs. get_command ucd mgr hs arguments = Inr (handler cmd, kwargs)
                \<and> map kwargs (map pname ps) =
                    map (\<lambda>i. if i < length (as cmd) then Some (as cmd ! i)
                              else if nullable (annotation (ps ! i)) then Some NoneV
                              else pdefault (ps ! i)) [0..<length ps])"
proof -
  let ?n = "length arguments"
  from assms(4) have "filter (\<lambda>c. \<not> missing_required (drop ?n (args c))) pre = []"
    by (induction pre) auto
  with assms(3,5) have "arity_survivors ?n live
      = cmd # filter (\<lambda>c. \<not> missing_required (drop ?n (args c))) post"
    by (simp add: arity_survivors_def missing_required_iff)
  with select_command_eq[OF assms(1)] assms(2)
  have sel: "select_command ucd mgr hs arguments = Inr (cmd, as cmd)" by simp
  have ghp: "get_handler_params (handler cmd) (as cmd)
               = bind_parameters ps (as cmd) [''self'' \<mapsto> SelfObj, ''ctx'' \<mapsto> CtxObj]"
    using assms(6) by (simp add: get_handler_params_def)
  show ?thesis
  proof (cases "list_ex (\<lambda>p. \<not> nullable (annotation p) \<and> pdefault p = None) (drop (length (as cmd)) ps)")
    case True
    then have "bind_parameters ps (as cmd) [''self'' \<mapsto> SelfObj, ''ctx'' \<mapsto> CtxObj] = Inl IndexError"
      using bind_parameters_Inl_iff[of ps "as cmd" _ IndexError] by simp
    with sel ghp True show ?thesis by (simp add: get_command_def)
  next
    case False
    then obtain kwargs where
      b: "bind_parameters ps (as cmd) [''self'' \<mapsto> SelfObj, ''ctx'' \<mapsto> CtxObj] = Inr kwargs"
      using bind_parameters_Inl_iff[of ps "as cmd" "[''self'' \<mapsto> SelfObj, ''ctx'' \<mapsto> CtxObj]"]
      by (cases "bind_parameters ps (as cmd) [''self'' \<mapsto> SelfObj, ''ctx'' \<mapsto> CtxObj]") auto
    have "map kwargs (map pname ps) =
            map (\<lambda>i. if i < length (as cmd) then Some (as cmd ! i)
                      else if nullable (annotation (ps ! i)) then Some NoneV
                      else pdefault (ps ! i)) [0..<length ps]"
      using bind_parameters_Inr[OF b assms(7)] by (auto intro!: nth_equalityI)
    with sel ghp b False show ?thesis by (simp add: get_command_def)
  qed
qed

theorem binding_rule_witness:
  "\<forall>ucd. scan_args ucd example_mgr [''addCategory'', ''general''] 0 [''addCategory'', ''general'']
         (Handler_handlers, \<lambda>hdl. [])
       = Inr ([Handler_handlers ! 25], (\<lambda>hdl. [])(Handler_handlers ! 25 := [Str ''general'']))
     \<and> list_all is_optional (drop 2 (args (Handler_handlers ! 25)))
     \<and> map pname (parameters (handler (Handler_handlers ! 25)))
         = [''self'', ''ctx'', ''name'', ''label'', ''commands'']
     \<and> (\<exists>kwargs. get_command ucd example_mgr Handler_handlers [''addCategory'', ''general'']
                      = Inr (handler_743, kwargs)
            \<and> map kwargs [''name'', ''label'', ''commands'']
                = [Some (Str ''general''), Some NoneV, Some NoneV])"
  apply (rule allI)
  subgoal for ucd
proof -
  let ?toks = "[''addCategory'', ''general'']"
  let ?cmd = "Handler_handlers ! 25"
  have h1: "scan_args ucd example_mgr ?toks 0 ?toks (Handler_handlers, \<lambda>hdl. [])
              = Inr ([?cmd], (\<lambda>hdl. [])(?cmd := [Str ''general'']))"
    by (simp add: eval_defs)
  have h2: "?toks \<noteq> []" by simp
  have h3: "[?cmd] = [] @ ?cmd # []" by simp
  have h4: "list_all (\<lambda>c. missing_required (drop (length ?toks) (args c))) []" by simp
  have h5: "list_all is_optional (drop (length ?toks) (args ?cmd))"
    by (simp add: eval_defs)
  have h6: "parameters (handler ?cmd)
              = \<lparr>pname = ''self'', annotation = Plain (OtherT ''inspect._empty''), pdefault = None\<rparr>
                # \<lparr>pname = ''ctx'', annotation = Plain (OtherT ''CommandContext''), pdefault = None\<rparr>
                # [\<lparr>pname = ''name'', annotation = Plain StrT, pdefault = None\<rparr>,
                   \<lparr>pname = ''label'', annotation = Union [StrT, NoneT], pdefault = None\<rparr>,
                   \<lparr>pname = ''commands'', annotation = Union [ListStrT, NoneT], pdefault = None\<rparr>]"
    by (simp add: eval_defs handler_743_def)
  have h7: "distinct (map pname
               [\<lparr>pname = ''name'', annotation = Plain StrT, pdefault = None\<rparr>,
                \<lparr>pname = ''label'', annotation = Union [StrT, NoneT], pdefault = None\<rparr>,
                \<lparr>pname = ''commands'', annotation = Union [ListStrT, NoneT], pdefault = None\<rparr>])"
    by simp
  have hd: "handler ?cmd = handler_743" by (simp add: eval_defs)
  have c2: "list_all is_optional (drop 2 (args ?cmd))" by (simp add: eval_defs)
  have c3: "map pname (parameters (handler ?cmd)) = [''self'', ''ctx'', ''name'', ''label'', ''commands'']"
    unfolding h6 by simp
  have c4: "\<exists>kwargs. get_command ucd example_mgr Handler_handlers ?toks = Inr (handler_743, kwargs)
          \<and> map kwargs [''name'', ''label'', ''commands'']
              = [Some (Str ''general''), Some NoneV, Some NoneV]"
    using binding_rule[OF h1 h2 h3 h4 h5 h6 h7] unfolding hd by (simp add: upt_rec)
  show ?thesis by (rule conjI[OF h1 conjI[OF c2 conjI[OF c3 c4]]])
qed
  done


text \<open>
  C6. The pattern of \<open>createGroup\<close> ends in \<open>list[str] | None\<close>; its usage text reads
  \<open>createGroup (name) [commands...]\<close>. The input \<open>createGroup g a b\<close> matches that pattern,
  and \<open>get_command\<close> raises \<open>CommandNotFoundError\<close> on it, in every configuration, so that
  the entry point raises \<open>CommandUsageError\<close>: \<open>ignore_args_size\<close> looks at the union
  itself, and the fourth token removes the candidate. With one command, \<open>createGroup g a\<close>,
  the list \<open>[a]\<close> is bound.
\<close>

theorem createGroup_second_command_rejected:
  "args (Handler_handlers ! 14)
     = [Literal ''createGroup'', Type (Plain StrT), Type (Union [ListStrT, NoneT])]
   \<and> matches ucd mgr (args (Handler_handlers ! 14)) [''createGroup'', ''g'', ''a'', ''b'']
   \<and> get_command ucd mgr Handler_handlers [''createGroup'', ''g'', ''a'', ''b'']
       = Inl CommandNotFoundError
   \<and> cmd_cconf ucd dedent mgr Handler_handlers
        \<lparr>ctx_arguments = [''createGroup'', ''g'', ''a'', ''b''], ctx_prefix = pfx, ctx_execute_name = name\<rparr>
       = RaiseCommandUsageError
   \<and> get_command ucd mgr Handler_handlers [''createGroup'', ''g'', ''a'']
       = Inr (handler_488, [''self'' \<mapsto> SelfObj, ''ctx'' \<mapsto> CtxObj, ''name'' \<mapsto> Str ''g'',
                            ''allowed_commands'' \<mapsto> StrList [''a'']])"
proof -
  have 1: "args (Handler_handlers ! 14)
     = [Literal ''createGroup'', Type (Plain StrT), Type (Union [ListStrT, NoneT])]"
    by (simp add: spec_defs)
  have 2: "matches ucd mgr (args (Handler_handlers ! 14)) [''createGroup'', ''g'', ''a'', ''b'']"
    unfolding 1 by (simp add: is_list_def)
  have 3: "get_command ucd mgr Handler_handlers [''createGroup'', ''g'', ''a'', ''b'']
       = Inl CommandNotFoundError"
    unfolding get_command_spec
    by (simp add: Handler_handlers_def decorated_def Handler_call_def select_spec_def
          keeps_def fails_def emits_def arity_survivors_def arity_eliminated_def
          ignore_args_size_def is_list_def lower_words get_handler_params_def)
  have 4: "cmd_cconf ucd dedent mgr Handler_handlers
        \<lparr>ctx_arguments = [''createGroup'', ''g'', ''a'', ''b''], ctx_prefix = pfx, ctx_execute_name = name\<rparr>
       = RaiseCommandUsageError"
    by (simp add: cmd_cconf_def arguments_get_def 3 after_get_command_def)
  have 5: "get_command ucd mgr Handler_handlers [''createGroup'', ''g'', ''a'']
       = Inr (handler_488, [''self'' \<mapsto> SelfObj, ''ctx'' \<mapsto> CtxObj, ''name'' \<mapsto> Str ''g'',
                            ''allowed_commands'' \<mapsto> StrList [''a'']])"
    unfolding get_command_spec
    by (simp add: Handler_handlers_def decorated_def Handler_call_def select_spec_def
          keeps_def fails_def emits_def arity_survivors_def arity_eliminated_def
          ignore_args_size_def is_list_def lower_words get_handler_params_def handler_488_def)
  show ?thesis by (rule conjI[OF 1 conjI[OF 2 conjI[OF 3 conjI[OF 4 5]]]])
qed

text \<open>
  On every other input the round trip holds. For every handler \<open>cmd\<close> of the registry and
  every input that exactly matches its pattern and, when the pattern does not end in
  \<open>list\<close> or \<open>list[str]\<close>, has no more tokens than the pattern has elements, \<open>get_command\<close>
  returns the function of \<open>cmd\<close> with every declared parameter bound: the parameters
  receive, in order, the values collected at the non-literal positions, and \<open>None\<close> where
  the input omits a nullable position. In particular \<open>addCommand ping\<close> resolves to the
  \<open>addCommand\<close> function with \<open>name\<close> bound to \<open>ping\<close> and \<open>handler_id\<close> and \<open>category\<close>
  bound to \<open>None\<close>, in every configuration.
\<close>

lemma round_trip_within_arity:
  assumes "cmd \<in> set Handler_handlers" and "matches ucd mgr (args cmd) arguments"
    and "ignore_args_size cmd \<or> length arguments \<le> length (args cmd)"
  shows "(\<exists>kwargs. get_command ucd mgr Handler_handlers arguments = Inr (handler cmd, kwargs)
            \<and> map kwargs (map pname (drop 2 (parameters (handler cmd))))
                = bound_values (length (drop 2 (parameters (handler cmd))))
                    (collected ucd mgr arguments 0 arguments cmd))
         \<and> get_command ucd mgr Handler_handlers [''addCommand'', ''ping'']
             = Inr (handler_204,
                    [''self'' \<mapsto> SelfObj, ''ctx'' \<mapsto> CtxObj, ''name'' \<mapsto> Str ''ping'',
                     ''handler_id'' \<mapsto> NoneV, ''category'' \<mapsto> NoneV])"
proof -
  from assms(1) obtain i where "i < 33" and "cmd = Handler_handlers ! i"
    by (auto simp: in_set_conv_nth length_Handler_handlers)
  with nth_resolves[of i ucd mgr arguments] assms(2,3)
  have 1: "resolves_to ucd mgr Handler_handlers cmd arguments" by simp
  have 2: "get_command ucd mgr Handler_handlers [''addCommand'', ''ping'']
             = Inr (handler_204,
                    [''self'' \<mapsto> SelfObj, ''ctx'' \<mapsto> CtxObj, ''name'' \<mapsto> Str ''ping'',
                     ''handler_id'' \<mapsto> NoneV, ''category'' \<mapsto> NoneV])"
    unfolding get_command_spec
    by (simp add: Handler_handlers_def decorated_def Handler_call_def select_spec_def
          keeps_def fails_def emits_def arity_survivors_def arity_eliminated_def
          ignore_args_size_def is_list_def lower_words get_handler_params_def handler_204_def)
  from 1 2 show ?thesis unfolding resolves_to_def by blast
qed


text \<open>
  C7. A candidate whose pattern does not end in \<open>list\<close> or \<open>list[str]\<close> (\<open>ignore_args_size\<close> is
  false) and that is shorter than the input is removed during the scan: it is not among
  the candidates left after the scan, and it is never the candidate that \<open>get_command\<close>
  selects.
\<close>

theorem extra_token_eliminates:
  assumes "\<not> ignore_args_size cmd" and "length (args cmd) < length arguments"
  shows "cmd \<notin> set (live_after_scan ucd mgr hs arguments)
         \<and> (\<forall>vs. select_command ucd mgr hs arguments \<noteq> Inr (cmd, vs))"
proof -
  have dead: "\<not> survives ucd 0 arguments cmd"
    using assms by (auto simp: survives_nth keeps_def)
  have 1: "cmd \<notin> set (live_after_scan ucd mgr hs arguments)"
  proof (cases "scan_args ucd mgr arguments 0 arguments (hs, \<lambda>hdl. [])")
    case (Inl e)
    then show ?thesis by (simp add: live_after_scan_def)
  next
    case (Inr st)
    obtain live as where st: "st = (live, as)" by (cases st)
    with Inr scan_args_handlers[of ucd mgr arguments 0 arguments hs "\<lambda>hdl. []" live as] dead
    show ?thesis by (simp add: live_after_scan_def)
  qed
  have 2: "select_command ucd mgr hs arguments \<noteq> Inr (cmd, vs)" for vs
  proof
    assume "select_command ucd mgr hs arguments = Inr (cmd, vs)"
    from select_command_Inr[OF this] obtain live as ws where
      s: "scan_args ucd mgr arguments 0 arguments (hs, \<lambda>hdl. []) = Inr (live, as)"
      and w: "arity_survivors (length arguments) live = cmd # ws" by blast
    from w have "cmd \<in> set live"
      by (metis arity_survivors_def filter_is_subset list.set_intros(1) subsetD)
    with s 1 show False by (simp add: live_after_scan_def)
  qed
  from 1 2 show ?thesis by blast
qed

theorem extra_token_eliminates_witness:
  "\<forall>ucd. \<not> ignore_args_size (hd Handler_handlers)
     \<and> length (args (hd Handler_handlers)) < length [''listCommands'', ''now'']
     \<and> hd Handler_handlers \<notin> set (live_after_scan ucd example_mgr Handler_handlers [''listCommands'', ''now''])
     \<and> select_command ucd example_mgr Handler_handlers [''listCommands'', ''now''] = Inl CommandNotFoundError"
  apply (rule allI)
  subgoal for ucd
  using extra_token_eliminates[of "hd Handler_handlers" "[''listCommands'', ''now'']" ucd example_mgr Handler_handlers]
  by (simp add: eval_defs live_after_scan_def)
  done





text \<open>
  C9. A call of \<open>get_command\<close> on a store in which \<open>Handler.handlers\<close> is an allocated list
  object returns, or raises, what \<open>get_command\<close> computes from the elements of that list,
  and leaves that list and every other list object that existed before the call as they
  were: whatever it removes, it removes from the copy it made. The handler objects in the
  list are values, so their \<open>args\<close>, \<open>handler\<close> and \<open>docs\<close> are those of before the call.
\<close>

theorem get_command_leaves_registry:
  assumes "Handler_handlers_addr < next_addr s"
  shows "fst (st_get_command ucd mgr Handler_handlers_addr arguments s)
           = get_command ucd mgr (list_objs s Handler_handlers_addr) arguments
         \<and> list_objs (snd (st_get_command ucd mgr Handler_handlers_addr arguments s)) Handler_handlers_addr
           = list_objs s Handler_handlers_addr
         \<and> (\<forall>b. b < next_addr s \<longrightarrow>
               list_objs (snd (st_get_command ucd mgr Handler_handlers_addr arguments s)) b = list_objs s b)"
proof (cases "arguments = []")
  case True
  then show ?thesis
    by (simp add: st_get_command_def get_command_def select_command_def)
next
  case False
  let ?a = Handler_handlers_addr
  let ?h = "next_addr s"
  let ?s1 = "s\<lparr>list_objs := (list_objs s)(?h := list_objs s ?a), next_addr := Suc ?h\<rparr>"
  have copy: "list_copy ?a s = (?h, ?s1)" by (simp add: list_copy_def)
  have s1h: "list_objs ?s1 ?h = list_objs s ?a" by simp
  have s1b: "list_objs ?s1 b = list_objs s b" if "b < ?h" for b using that by simp
  obtain res s2 where sc: "st_scan_args ucd mgr arguments 0 arguments ?h (\<lambda>hdl. []) ?s1 = (res, s2)"
    by (cases "st_scan_args ucd mgr arguments 0 arguments ?h (\<lambda>hdl. []) ?s1")
  from st_scan_args_refines[of ?h ucd mgr arguments 0 arguments "\<lambda>hdl. []" ?s1] sc s1h
  have ref: "with_list ?h (res, s2) = scan_args ucd mgr arguments 0 arguments (list_objs s ?a, \<lambda>hdl. [])"
    by simp
  from st_scan_args_frame[of ?h ?s1 ucd mgr arguments 0 arguments "\<lambda>hdl. []"] sc
  have fr: "only_at ?h ?s1 s2" by simp
  have s2b: "list_objs s2 b = list_objs s b" if "b < ?h" for b
    using only_at_other[OF fr, of b] s1b[OF that] that by simp
  show ?thesis
  proof (cases res)
    case (Inl e)
    with ref have "scan_args ucd mgr arguments 0 arguments (list_objs s ?a, \<lambda>hdl. []) = Inl e"
      by (simp add: with_list_def)
    with False copy sc Inl s2b assms show ?thesis
      by (simp add: st_get_command_def get_command_def select_command_def)
  next
    case (Inr as)
    with ref have pure: "scan_args ucd mgr arguments 0 arguments (list_objs s ?a, \<lambda>hdl. [])
                           = Inr (list_objs s2 ?h, as)"
      by (simp add: with_list_def)
    let ?live = "list_objs s2 ?h"
    let ?n = "length arguments"
    let ?s3 = "set_list ?h (fst (check_arity ?n ?live (?live, []))) s2"
    have ca: "st_check_arity ?n ?live ?h [] s2 = (snd (check_arity ?n ?live (?live, [])), ?s3)"
      by (rule st_check_arity_refines)
    have s3h: "list_objs ?s3 ?h = fst (check_arity ?n ?live (?live, []))" by simp
    have s3b: "list_objs ?s3 b = list_objs s b" if "b < ?h" for b
      using s2b[OF that] that by simp
    obtain hs' errs where chk: "check_arity ?n ?live (?live, []) = (hs', errs)"
      by (cases "check_arity ?n ?live (?live, [])")
    have res_eq: "fst (st_get_command ucd mgr ?a arguments s) = get_command ucd mgr (list_objs s ?a) arguments"
      using False copy sc Inr pure ca chk
      by (simp add: st_get_command_def get_command_def select_command_def Let_def
            split: sum.splits py_exception.splits)
    have st_eq: "snd (st_get_command ucd mgr ?a arguments s) = s2
                 \<or> snd (st_get_command ucd mgr ?a arguments s) = ?s3"
      using False copy sc Inr ca chk
      by (simp add: st_get_command_def Let_def split: sum.splits py_exception.splits)
    then have "list_objs (snd (st_get_command ucd mgr ?a arguments s)) b = list_objs s b"
      if "b < ?h" for b
      using s2b[OF that] s3b[OF that] by auto
    with res_eq assms show ?thesis by simp
  qed
qed

theorem get_command_leaves_registry_witness:
  "\<forall>ucd. (0::nat) < next_addr example_store
     \<and> fst (st_get_command ucd example_mgr 0 [''listcommands'', ''now''] example_store)
         = Inl CommandNotFoundError
     \<and> list_objs (snd (st_get_command ucd example_mgr 0 [''listcommands'', ''now''] example_store)) 0 = twins
     \<and> list_objs (snd (st_get_command ucd example_mgr 0 [''listcommands'', ''now''] example_store)) 1 = []"
  apply (rule allI)
  subgoal for ucd
proof -
  have h: "(0::nat) < next_addr example_store" by (simp add: example_store_def)
  have l: "list_objs example_store 0 = twins" by (simp add: example_store_def)
  have g: "get_command ucd example_mgr twins [''listcommands'', ''now''] = Inl CommandNotFoundError"
    by (simp add: twins_def eval_defs)
  have c: "list_objs (snd (st_get_command ucd example_mgr 0 [''listcommands'', ''now''] example_store)) 1 = []"
    by (simp add: example_store_def st_get_command_def list_copy_def st_scan_cmd_def
          list_remove_def twins_def eval_defs)
  from get_command_leaves_registry[OF h, of ucd example_mgr "[''listcommands'', ''now'']"] h l g c
  show ?thesis by simp
qed
  done


text \<open>
  C10, as amended. When the first token is exactly \<open>help\<close>, \<open>cmd_cconf\<close> sends the help
  listing, whatever the registry and the configuration are: \<open>get_command\<close> has no part in
  the result. Any other first token, also \<open>help\<close> in another letter case, goes to
  \<open>get_command\<close>. With no token the comparison is against the empty string, \<open>get_command\<close>
  raises \<open>CommandNotFoundError\<close> and the entry point raises \<open>CommandUsageError\<close>. So a handler
  whose first literal is \<open>help\<close> is not reached by an input whose first token is exactly
  \<open>help\<close>.
\<close>

theorem help_shortcut:
  assumes "ctx_arguments ctx = tok # rest"
  shows "(if tok = ''help''
          then cmd_cconf ucd dedent mgr hs ctx
                 = SendInfo (Embed help_title (list_all_text (ctx_prefix ctx) (ctx_execute_name ctx)))
               \<and> cmd_cconf ucd dedent mgr hs ctx = cmd_cconf ucd' dedent' mgr' hs' ctx
          else cmd_cconf ucd dedent mgr hs ctx
                 = after_get_command dedent (get_command ucd mgr hs (tok # rest)))
         \<and> cmd_cconf ucd dedent mgr hs (ctx\<lparr>ctx_arguments := []\<rparr>) = RaiseCommandUsageError"
  using assms
  by (simp add: cmd_cconf_def arguments_get_def get_command_def select_command_def
        after_get_command_def)

theorem help_shortcut_witness:
  "\<forall>ucd. ctx_arguments \<lparr>ctx_arguments = [''help'', ''me''], ctx_prefix = ''!'', ctx_execute_name = ''cconf''\<rparr>
       = ''help'' # [''me'']
     \<and> cmd_cconf ucd id example_mgr help_registry
          \<lparr>ctx_arguments = [''help'', ''me''], ctx_prefix = ''!'', ctx_execute_name = ''cconf''\<rparr>
         = SendInfo (Embed help_title (list_all_text ''!'' ''cconf''))"
  apply (rule allI)
  subgoal for ucd
  using help_shortcut[of "\<lparr>ctx_arguments = [''help'', ''me''], ctx_prefix = ''!'', ctx_execute_name = ''cconf''\<rparr>"
      "''help''" "[''me'']" ucd id example_mgr help_registry ucd id example_mgr help_registry]
  by simp
  done

text \<open>
  Such a handler is still reached through the entry point by the token \<open>HELP\<close>: the guard
  compares case-sensitively, the scan case-insensitively.
\<close>

theorem help_handler_reachable_counterexample:
  "\<forall>ucd. cmd_cconf ucd id example_mgr help_registry
          \<lparr>ctx_arguments = [''HELP''], ctx_prefix = ''!'', ctx_execute_name = ''cconf''\<rparr>
       = Await handler_172 [''self'' \<mapsto> SelfObj, ''ctx'' \<mapsto> CtxObj]
     \<and> args (hd help_registry) = [Literal ''help'']
     \<and> handler (hd help_registry) = handler_172"
  apply (rule allI)
  subgoal for ucd
  by (simp add: cmd_cconf_def arguments_get_def after_get_command_def help_registry_def
        eval_defs handler_172_def)
  done

end
